theory Spec2Isabelle
  imports Main
begin

section \<open>Python values that come out of a JSON document\<close>

text \<open>
  \<^verbatim>\<open>newapi.py\<close> works on what \<^verbatim>\<open>json\<close> decoding returns: \<^verbatim>\<open>None\<close>, booleans, integers,
  strings, lists and dictionaries. A dictionary is an association list read with
  \<open>map_of\<close> (a Python dictionary has each key once). A \<open>char\<close> stands for one code
  point below 256. Numbers with a fraction or an exponent (Python floats) are not part
  of this model.
\<close>

datatype json =
    JNull
  | JBool bool
  | JInt int
  | JStr string
  | JList "json list"
  | JObj "(string \<times> json) list"

text \<open>The exceptions the modelled code can raise on such values.\<close>

datatype py_error = AttributeError | TypeError

text \<open>Python's truth value of an object, as \<^verbatim>\<open>not x\<close> and \<^verbatim>\<open>x or y\<close> test it.\<close>

fun truthy :: "json \<Rightarrow> bool" where
  "truthy JNull = False"
| "truthy (JBool b) = b"
| "truthy (JInt n) = (n \<noteq> 0)"
| "truthy (JStr s) = (s \<noteq> [])"
| "truthy (JList xs) = (xs \<noteq> [])"
| "truthy (JObj kv) = (kv \<noteq> [])"

text \<open>\<^verbatim>\<open>a or b\<close>: the left operand when it is truthy, the right one otherwise.\<close>

definition py_or :: "json \<Rightarrow> json \<Rightarrow> json" where
  "py_or a b = (if truthy a then a else b)"

text \<open>\<^verbatim>\<open>d.get(k)\<close>: the value under the key, \<^verbatim>\<open>None\<close> when the key is missing.\<close>

definition dict_get :: "(string \<times> json) list \<Rightarrow> string \<Rightarrow> json" where
  "dict_get kv k = (case map_of kv k of None \<Rightarrow> JNull | Some v \<Rightarrow> v)"

subsection \<open>\<^verbatim>\<open>str\<close> and \<^verbatim>\<open>repr\<close>\<close>

definition digit_char :: "nat \<Rightarrow> char" where
  "digit_char d = char_of (48 + d)"

fun str_of_nat :: "nat \<Rightarrow> string" where
  "str_of_nat n = (if n < 10 then [digit_char n] else str_of_nat (n div 10) @ [digit_char (n mod 10)])"

definition str_of_int :: "int \<Rightarrow> string" where
  "str_of_int i = (if i < 0 then CHR ''-'' # str_of_nat (nat (- i)) else str_of_nat (nat i))"

definition hex_char :: "nat \<Rightarrow> char" where
  "hex_char d = (if d < 10 then char_of (48 + d) else char_of (87 + d))"

text \<open>A code point that \<^verbatim>\<open>repr\<close> writes as it is (the quote and the backslash apart).\<close>

definition printable :: "char \<Rightarrow> bool" where
  "printable c = (let n = (of_char c :: nat) in
     (32 \<le> n \<and> n < 127) \<or> (161 \<le> n \<and> n \<noteq> 173))"

definition repr_char :: "char \<Rightarrow> char \<Rightarrow> string" where
  "repr_char q c =
     (if c = q \<or> c = CHR 0x5C then [CHR 0x5C, c]
      else if c = CHR 0x09 then [CHR 0x5C, CHR ''t'']
      else if c = CHR 0x0A then [CHR 0x5C, CHR ''n'']
      else if c = CHR 0x0D then [CHR 0x5C, CHR ''r'']
      else if printable c then [c]
      else [CHR 0x5C, CHR ''x'', hex_char ((of_char c :: nat) div 16),
            hex_char ((of_char c :: nat) mod 16)])"

text \<open>
  \<^verbatim>\<open>repr\<close> of a string: single quotes, unless the string has a single quote and no
  double quote.
\<close>

definition repr_str :: "string \<Rightarrow> string" where
  "repr_str s =
     (let q = (if CHR 0x27 \<in> set s \<and> CHR 0x22 \<notin> set s then CHR 0x22 else CHR 0x27)
      in q # concat (map (repr_char q) s) @ [q])"

fun join :: "string \<Rightarrow> string list \<Rightarrow> string" where
  "join sep [] = []"
| "join sep [x] = x"
| "join sep (x # y # ys) = x @ sep @ join sep (y # ys)"

fun py_repr :: "json \<Rightarrow> string" where
  "py_repr JNull = ''None''"
| "py_repr (JBool b) = (if b then ''True'' else ''False'')"
| "py_repr (JInt n) = str_of_int n"
| "py_repr (JStr s) = repr_str s"
| "py_repr (JList xs) = ''['' @ join '', '' (map py_repr xs) @ '']''"
| "py_repr (JObj kv) =
     ''{'' @ join '', '' (map (\<lambda>e. repr_str (fst e) @ '': '' @ py_repr (snd e)) kv) @ ''}''"

text \<open>\<^verbatim>\<open>str(x)\<close>: a string is itself, everything else is its \<^verbatim>\<open>repr\<close>.\<close>

fun py_str :: "json \<Rightarrow> string" where
  "py_str (JStr s) = s"
| "py_str v = py_repr v"

section \<open>The field extractor\<close>

text \<open>
  \<^verbatim>\<open>_extract_name(side)\<close>: \<^verbatim>\<open>""\<close> for \<^verbatim>\<open>None\<close>; for a dictionary the first truthy
  value among \<^verbatim>\<open>name\<close>, \<^verbatim>\<open>name_en\<close>, \<^verbatim>\<open>name_full\<close>, \<^verbatim>\<open>name_short\<close>, in that order, else
  \<^verbatim>\<open>""\<close>; \<^verbatim>\<open>str(side)\<close> for anything else.
\<close>

fun extract_name :: "json \<Rightarrow> json" where
  "extract_name JNull = JStr ''''"
| "extract_name (JObj side) =
     py_or (dict_get side ''name'')
       (py_or (dict_get side ''name_en'')
         (py_or (dict_get side ''name_full'')
           (py_or (dict_get side ''name_short'') (JStr ''''))))"
| "extract_name side = JStr (py_str side)"

section \<open>The timestamp localizer\<close>

subsection \<open>\<^verbatim>\<open>int(x)\<close>\<close>

definition is_digit :: "char \<Rightarrow> bool" where
  "is_digit c = (48 \<le> (of_char c :: nat) \<and> (of_char c :: nat) \<le> 57)"

text \<open>The white space of \<^verbatim>\<open>str.strip()\<close>: the code points for which \<^verbatim>\<open>isspace\<close> holds.\<close>

definition py_space :: "char \<Rightarrow> bool" where
  "py_space c = (let n = (of_char c :: nat) in
     (9 \<le> n \<and> n \<le> 13) \<or> (28 \<le> n \<and> n \<le> 32) \<or> n = 133 \<or> n = 160)"

definition strip :: "string \<Rightarrow> string" where
  "strip s = rev (dropWhile py_space (rev (dropWhile py_space s)))"

text \<open>
  The white space that \<^verbatim>\<open>int\<close> skips at both ends of a string is smaller: a code point
  below 127 is kept as it is and then only tab to carriage return (9 to 13) and the
  space are skipped, so the separators 28 to 31 are not; the spaces 133 and 160 above
  127 are turned into a space first and skipped.
\<close>

definition int_space :: "char \<Rightarrow> bool" where
  "int_space c = (let n = (of_char c :: nat) in
     (9 \<le> n \<and> n \<le> 13) \<or> n = 32 \<or> n = 133 \<or> n = 160)"

definition int_strip :: "string \<Rightarrow> string" where
  "int_strip s = rev (dropWhile int_space (rev (dropWhile int_space s)))"

text \<open>Decimal digits, with single underscores allowed between two digits.\<close>

fun valid_digits :: "string \<Rightarrow> bool" where
  "valid_digits [] = False"
| "valid_digits [c] = is_digit c"
| "valid_digits (c # d # cs) =
     (is_digit c \<and> (if d = CHR ''_'' then valid_digits cs else valid_digits (d # cs)))"

definition digits_value :: "string \<Rightarrow> int" where
  "digits_value ds = foldl (\<lambda>a c. 10 * a + (int (of_char c) - 48)) 0 ds"

text \<open>
  \<^verbatim>\<open>int(s)\<close> for a string: \<open>None\<close> stands for the \<^verbatim>\<open>ValueError\<close>. More than 4300 digits
  are refused (the interpreter's default limit on integer strings).
\<close>

definition int_of_str :: "string \<Rightarrow> int option" where
  "int_of_str s =
     (let t = int_strip s;
          neg = (t \<noteq> [] \<and> hd t = CHR ''-'');
          body = (if t \<noteq> [] \<and> (hd t = CHR ''-'' \<or> hd t = CHR ''+'') then tl t else t);
          ds = filter is_digit body
      in if valid_digits body \<and> length ds \<le> 4300
         then Some (if neg then - digits_value ds else digits_value ds)
         else None)"

text \<open>
  \<^verbatim>\<open>int(epoch_value)\<close> under \<^verbatim>\<open>except Exception\<close>: \<open>None\<close> stands for any exception
  (\<^verbatim>\<open>TypeError\<close> for \<^verbatim>\<open>None\<close>, a list or a dictionary, \<^verbatim>\<open>ValueError\<close> for a string that
  is not a number).
\<close>

fun py_int :: "json \<Rightarrow> int option" where
  "py_int (JInt n) = Some n"
| "py_int (JBool b) = Some (if b then 1 else 0)"
| "py_int (JStr s) = int_of_str s"
| "py_int _ = None"

subsection \<open>Calendar dates\<close>

text \<open>
  The proleptic Gregorian date (year, month, day) of a day number counted from
  1970-01-01, which is what \<^verbatim>\<open>datetime\<close> and \<^verbatim>\<open>date\<close> compute.
\<close>

definition civil_from_days :: "int \<Rightarrow> int \<times> int \<times> int" where
  "civil_from_days z0 =
     (let z = z0 + 719468;
          era = z div 146097;
          doe = z - era * 146097;
          yoe = (doe - doe div 1460 + doe div 36524 - doe div 146096) div 365;
          y = yoe + era * 400;
          doy = doe - (365 * yoe + yoe div 4 - yoe div 100);
          mp = (5 * doy + 2) div 153;
          d = doy - (153 * mp + 2) div 5 + 1;
          m = (if mp < 10 then mp + 3 else mp - 9)
      in (if m \<le> 2 then y + 1 else y, m, d))"

definition pad2 :: "int \<Rightarrow> string" where
  "pad2 n = [digit_char (nat n div 10 mod 10), digit_char (nat n mod 10)]"

text \<open>
  \<^verbatim>\<open>%Y\<close> is written by the C library, which does not pad the year (glibc): year 999 is
  \<^verbatim>\<open>999\<close>, not \<^verbatim>\<open>0999\<close>. Years run from 1 to 9999.
\<close>

definition fmt_year :: "int \<Rightarrow> string" where
  "fmt_year y = str_of_nat (nat y)"

text \<open>\<^verbatim>\<open>strftime("%Y-%m-%d")\<close> and \<^verbatim>\<open>strftime("%Y%m%d")\<close> of a day number.\<close>

definition fmt_day :: "int \<Rightarrow> string" where
  "fmt_day z =
     (case civil_from_days z of (y, m, d) \<Rightarrow> fmt_year y @ ''-'' @ pad2 m @ ''-'' @ pad2 d)"

definition fmt_day_param :: "int \<Rightarrow> string" where
  "fmt_day_param z = (case civil_from_days z of (y, m, d) \<Rightarrow> fmt_year y @ pad2 m @ pad2 d)"

text \<open>
  A \<^verbatim>\<open>datetime\<close> is the number of seconds of its wall clock since 1970-01-01 00:00:00.
  \<^verbatim>\<open>strftime("%Y-%m-%d")\<close> and \<^verbatim>\<open>strftime("%H:%M:%S")\<close> of it:
\<close>

definition fmt_date :: "int \<Rightarrow> string" where
  "fmt_date t = fmt_day (t div 86400)"

definition fmt_time :: "int \<Rightarrow> string" where
  "fmt_time t = (let s = t mod 86400
     in pad2 (s div 3600) @ '':'' @ pad2 (s mod 3600 div 60) @ '':'' @ pad2 (s mod 60))"

text \<open>A \<^verbatim>\<open>datetime\<close> exists from 0001-01-01 00:00:00 to 9999-12-31 23:59:59.\<close>

definition in_datetime_range :: "int \<Rightarrow> bool" where
  "in_datetime_range t = (- 62135596800 \<le> t \<and> t \<le> 253402300799)"

text \<open>
  \<^verbatim>\<open>datetime.fromtimestamp(ts, tz=utc)\<close> and \<^verbatim>\<open>datetime.utcfromtimestamp(ts)\<close>: \<open>None\<close>
  stands for the exception raised outside the range.
\<close>

definition fromtimestamp :: "int \<Rightarrow> int option" where
  "fromtimestamp ts = (if in_datetime_range ts then Some ts else None)"

subsection \<open>\<^verbatim>\<open>_convert_epoch_to_date_time\<close>\<close>

text \<open>
  The time zone database is outside the program: \<open>zones name\<close> is \<open>None\<close> when
  \<^verbatim>\<open>ZoneInfo(name)\<close> raises (an unknown name), else the zone's offset from UTC in
  seconds at each instant. Where the \<^verbatim>\<open>zoneinfo\<close> module is missing (\<^verbatim>\<open>ZoneInfo is None\<close>)
  the database is the one that knows no name.
\<close>

type_synonym zones = "string \<Rightarrow> (int \<Rightarrow> int) option"

text \<open>The zone chosen by the inner \<^verbatim>\<open>try\<close>: UTC (offset 0) on any failure.\<close>

definition resolve_tz :: "zones \<Rightarrow> string \<Rightarrow> (int \<Rightarrow> int)" where
  "resolve_tz zones tz_name =
     (if tz_name \<noteq> [] then (case zones tz_name of Some tz \<Rightarrow> tz | None \<Rightarrow> (\<lambda>_. 0))
      else (\<lambda>_. 0))"

text \<open>\<^verbatim>\<open>dt_utc.astimezone(tz)\<close>: \<open>None\<close> when the local time leaves the range.\<close>

definition astimezone :: "(int \<Rightarrow> int) \<Rightarrow> int \<Rightarrow> int option" where
  "astimezone tz t = (if in_datetime_range (t + tz t) then Some (t + tz t) else None)"

definition convert_epoch_to_date_time :: "zones \<Rightarrow> json \<Rightarrow> string \<Rightarrow> string \<times> string" where
  "convert_epoch_to_date_time zones epoch_value tz_name =
     (if \<not> truthy epoch_value then ('''', '''')
      else case py_int epoch_value of
        None \<Rightarrow> ('''', '''')
      | Some ts \<Rightarrow>
          (case (case fromtimestamp ts of
                   None \<Rightarrow> None
                 | Some dt_utc \<Rightarrow> astimezone (resolve_tz zones tz_name) dt_utc) of
             Some dt_local \<Rightarrow> (fmt_date dt_local, fmt_time dt_local)
           | None \<Rightarrow>
               (case fromtimestamp ts of
                  Some d \<Rightarrow> (fmt_date d, fmt_time d)
                | None \<Rightarrow> ('''', ''''))))"

section \<open>The record normalizer\<close>

text \<open>
  A row is the dictionary literal that \<^verbatim>\<open>normalize_result\<close> appends: eight keys in a
  fixed order. The data frame built from the rows is the list of rows.
\<close>

type_synonym row = "(string \<times> json) list"

text \<open>
  The body of the \<^verbatim>\<open>for\<close> loop for one item. \<^verbatim>\<open>it.get\<close> exists on a dictionary only; on
  any other value the first \<^verbatim>\<open>it.get("id")\<close> raises \<^verbatim>\<open>AttributeError\<close>.
\<close>

definition normalize_item :: "zones \<Rightarrow> string \<Rightarrow> json \<Rightarrow> py_error + row" where
  "normalize_item zones tz_name item =
     (case item of
        JObj it \<Rightarrow>
          (let event_id =
                 py_or (dict_get it ''id'')
                   (py_or (dict_get it ''event_id'')
                     (py_or (dict_get it ''FI'')
                       (py_or (dict_get it ''match_id'') (dict_get it ''event_key''))));
               event_key = (if event_id \<noteq> JNull then py_str event_id else '''');
               time_epoch =
                 py_or (dict_get it ''time'')
                   (py_or (dict_get it ''start_time'') (dict_get it ''kickoff''));
               date_time = convert_epoch_to_date_time zones time_epoch tz_name;
               league = py_or (dict_get it ''league'') (JObj []);
               tournament_name =
                 (case league of
                    JObj lg \<Rightarrow>
                      py_or (dict_get lg ''name'')
                        (py_or (dict_get lg ''name_en'')
                          (py_or (dict_get lg ''cc'') (JStr '''')))
                  | _ \<Rightarrow> JStr (if league \<noteq> JNull then py_str league else ''''));
               home =
                 py_or (dict_get it ''home'')
                   (py_or (dict_get it ''home_team'') (dict_get it ''home_player''));
               away =
                 py_or (dict_get it ''away'')
                   (py_or (dict_get it ''away_team'') (dict_get it ''away_player''));
               first_player = extract_name home;
               second_player = extract_name away;
               event_type_type = py_str (py_or (dict_get it ''sport_id'') (JStr ''''));
               event_status =
                 py_str (py_or (dict_get it ''time_status'')
                           (py_or (dict_get it ''status'') (JStr '''')))
           in Inr [(''event_key'', JStr event_key),
                   (''event_date'', JStr (fst date_time)),
                   (''event_time'', JStr (snd date_time)),
                   (''first_player'', first_player),
                   (''second_player'', second_player),
                   (''tournament_name'', tournament_name),
                   (''event_type_type'', JStr event_type_type),
                   (''event_status'', JStr event_status)])
      | _ \<Rightarrow> Inl AttributeError)"

text \<open>
  What a \<^verbatim>\<open>for\<close> loop or \<^verbatim>\<open>list.extend\<close> takes out of a value: the items of a list, the keys
  of a dictionary, the characters of a string; anything else is not iterable
  (\<^verbatim>\<open>TypeError\<close>).
\<close>

fun py_iter :: "json \<Rightarrow> py_error + json list" where
  "py_iter (JList xs) = Inr xs"
| "py_iter (JObj kv) = Inr (map (\<lambda>e. JStr (fst e)) kv)"
| "py_iter (JStr s) = Inr (map (\<lambda>c. JStr [c]) s)"
| "py_iter _ = Inl TypeError"

text \<open>The \<^verbatim>\<open>for\<close> loop: rows in input order, stopped by the first exception.\<close>

fun normalize_items :: "zones \<Rightarrow> string \<Rightarrow> json list \<Rightarrow> py_error + row list" where
  "normalize_items zones tz_name [] = Inr []"
| "normalize_items zones tz_name (item # items) =
     (case normalize_item zones tz_name item of
        Inl e \<Rightarrow> Inl e
      | Inr r \<Rightarrow>
          (case normalize_items zones tz_name items of
             Inl e \<Rightarrow> Inl e
           | Inr rows \<Rightarrow> Inr (r # rows)))"

definition normalize_result :: "zones \<Rightarrow> json \<Rightarrow> string \<Rightarrow> py_error + row list" where
  "normalize_result zones result_list tz_name =
     (case py_iter (py_or result_list (JList [])) of
        Inl e \<Rightarrow> Inl e
      | Inr items \<Rightarrow> normalize_items zones tz_name items)"

section \<open>The day paginator and the range loop\<close>

text \<open>
  One HTTP call of \<^verbatim>\<open>fetch_api_day\<close> is a request given to the upstream service, which
  is outside the program. It answers with a decoded JSON body, or the call raises
  (connection failure, HTTP status, undecodable body) with a message.
\<close>

record request =
  req_endpoint :: string
  req_token :: string
  req_sport_id :: int
  req_day :: string
  req_page :: nat

datatype response = HttpError string | Body json

type_synonym upstream = "request \<Rightarrow> response"

definition api_request :: "string \<Rightarrow> string \<Rightarrow> int \<Rightarrow> string \<Rightarrow> nat \<Rightarrow> request" where
  "api_request tok day_str sport scope pg =
     \<lparr>req_endpoint = (if scope = ''upcoming'' then ''/v3/events/upcoming''
                       else ''/v3/events/ended''),
      req_token = tok, req_sport_id = sport, req_day = day_str, req_page = pg\<rparr>"

definition fetch_api_day :: "upstream \<Rightarrow> string \<Rightarrow> string \<Rightarrow> int \<Rightarrow> string \<Rightarrow> nat \<Rightarrow> response" where
  "fetch_api_day up tok day_str sport scope pg = up (api_request tok day_str sport scope pg)"

definition MAX_PAGES_PER_DAY :: nat where
  "MAX_PAGES_PER_DAY = 20"

text \<open>The values of the sidebar form. A date is its day number counted from 1970-01-01.\<close>

record form =
  betsapi_token :: string
  sport_id :: int
  scope_key :: string
  fecha_desde :: int
  fecha_hasta :: int
  timezone :: string

text \<open>The three messages appended to \<^verbatim>\<open>errores\<close>.\<close>

definition pagina :: string where
  "pagina = CHR ''p'' # CHR 0xE1 # ''gina''"

definition msg_http :: "string \<Rightarrow> nat \<Rightarrow> string \<Rightarrow> string" where
  "msg_http dia_str pg e =
     dia_str @ '' ('' @ pagina @ '' '' @ str_of_nat pg @ ''): error HTTP '' @ e"

definition msg_success :: "string \<Rightarrow> nat \<Rightarrow> (string \<times> json) list \<Rightarrow> string" where
  "msg_success dia_str pg payload =
     dia_str @ '' ('' @ pagina @ '' '' @ str_of_nat pg @ ''): success != 1 (''
       @ py_str (case map_of payload ''error'' of None \<Rightarrow> JObj payload | Some v \<Rightarrow> v) @ '')''"

definition msg_ceiling :: "string \<Rightarrow> string" where
  "msg_ceiling dia_str =
     dia_str @ '': se alcanz'' @ [CHR 0xF3] @ '' MAX_PAGES_PER_DAY=''
       @ str_of_nat MAX_PAGES_PER_DAY @ '', podr'' @ [CHR 0xED] @ ''an faltar eventos.''"

text \<open>\<^verbatim>\<open>success != 1\<close> compares with the integer 1, which \<^verbatim>\<open>True\<close> equals too.\<close>

fun py_eq_int :: "json \<Rightarrow> int \<Rightarrow> bool" where
  "py_eq_int (JInt n) k = (n = k)"
| "py_eq_int (JBool b) k = ((if b then 1 else 0) = k)"
| "py_eq_int _ k = False"

text \<open>
  The body of the \<^verbatim>\<open>while True\<close> loop up to \<^verbatim>\<open>acumulados_dia.extend(results)\<close>, for one
  page: the loop stops with the messages to record (\<^verbatim>\<open>break\<close>), an exception leaves the
  loop uncaught (\<^verbatim>\<open>payload.get\<close> on a body that is not a dictionary, \<^verbatim>\<open>extend\<close> with a
  value that is not iterable), or the page gives records to accumulate.
\<close>

datatype page_result = Stop "string list" | Raise py_error | More "json list"

text \<open>\<^verbatim>\<open>results = payload.get("results")\<close>, replaced by \<^verbatim>\<open>payload.get("result")\<close> when it
  is \<^verbatim>\<open>None\<close>.\<close>

definition get_results :: "(string \<times> json) list \<Rightarrow> json" where
  "get_results payload =
     (if dict_get payload ''results'' = JNull then dict_get payload ''result''
      else dict_get payload ''results'')"

definition day_request :: "form \<Rightarrow> int \<Rightarrow> nat \<Rightarrow> request" where
  "day_request f dia pg =
     api_request (strip (betsapi_token f)) (fmt_day_param dia) (sport_id f) (scope_key f) pg"

definition fetch_page :: "upstream \<Rightarrow> form \<Rightarrow> int \<Rightarrow> nat \<Rightarrow> page_result" where
  "fetch_page up f dia pg =
     (case fetch_api_day up (strip (betsapi_token f)) (fmt_day_param dia) (sport_id f)
             (scope_key f) pg of
        HttpError e \<Rightarrow> Stop [msg_http (fmt_day dia) pg e]
      | Body (JObj payload) \<Rightarrow>
          if \<not> py_eq_int (dict_get payload ''success'') 1
          then Stop [msg_success (fmt_day dia) pg payload]
          else if \<not> truthy (get_results payload) then Stop []
          else (case py_iter (get_results payload) of
                  Inl ex \<Rightarrow> Raise ex
                | Inr items \<Rightarrow> More items)
      | Body _ \<Rightarrow> Raise AttributeError)"

text \<open>
  The loop of one day, from the state (\<^verbatim>\<open>acumulados_dia\<close>, \<^verbatim>\<open>page\<close>, \<^verbatim>\<open>errores\<close>) and the
  calls made so far. It ends with the day's records and the error list, or with the
  exception.
\<close>

function paginate ::
  "upstream \<Rightarrow> form \<Rightarrow> int \<Rightarrow> json list \<Rightarrow> nat \<Rightarrow> string list \<Rightarrow> request list
     \<Rightarrow> request list \<times> (py_error + json list \<times> string list)" where
  "paginate up f dia acumulados_dia pg errores calls =
     (case fetch_page up f dia pg of
        Stop msgs \<Rightarrow> (calls @ [day_request f dia pg], Inr (acumulados_dia, errores @ msgs))
      | Raise ex \<Rightarrow> (calls @ [day_request f dia pg], Inl ex)
      | More items \<Rightarrow>
          if pg + 1 > MAX_PAGES_PER_DAY
          then (calls @ [day_request f dia pg],
                Inr (acumulados_dia @ items, errores @ [msg_ceiling (fmt_day dia)]))
          else paginate up f dia (acumulados_dia @ items) (pg + 1) errores
                 (calls @ [day_request f dia pg]))"
  by pat_completeness auto
termination
  by (relation "measure (\<lambda>(up, f, dia, acc, pg, errores, calls). MAX_PAGES_PER_DAY + 1 - pg)") auto

text \<open>\<^verbatim>\<open>drop_duplicates(subset=["event_key"])\<close>: a row is kept when no earlier row has its
  \<^verbatim>\<open>event_key\<close>.\<close>

definition row_key :: "row \<Rightarrow> json" where
  "row_key r = dict_get r ''event_key''"

fun drop_duplicates :: "json list \<Rightarrow> row list \<Rightarrow> row list" where
  "drop_duplicates seen [] = []"
| "drop_duplicates seen (r # rs) =
     (if row_key r \<in> set seen then drop_duplicates seen rs
      else r # drop_duplicates (row_key r # seen) rs)"

text \<open>
  The \<^verbatim>\<open>for i in range(total_dias)\<close> loop over the day indices still to do, from the
  state (\<^verbatim>\<open>dfs\<close>, \<^verbatim>\<open>errores\<close>) and the calls made so far.
\<close>

fun days_loop ::
  "upstream \<Rightarrow> zones \<Rightarrow> form \<Rightarrow> nat list \<Rightarrow> row list list \<Rightarrow> string list \<Rightarrow> request list
     \<Rightarrow> request list \<times> (py_error + row list list \<times> string list)" where
  "days_loop up zones f [] dfs errores calls = (calls, Inr (dfs, errores))"
| "days_loop up zones f (i # rest) dfs errores calls =
     (case paginate up f (fecha_desde f + int i) [] 1 errores calls of
        (calls', Inl ex) \<Rightarrow> (calls', Inl ex)
      | (calls', Inr (acumulados_dia, errores')) \<Rightarrow>
          if acumulados_dia \<noteq> [] then
            (case normalize_result zones (JList acumulados_dia) (strip (timezone f)) of
               Inl ex \<Rightarrow> (calls', Inl ex)
             | Inr df_dia \<Rightarrow>
                 days_loop up zones f rest (if df_dia \<noteq> [] then dfs @ [df_dia] else dfs)
                   errores' calls')
          else days_loop up zones f rest dfs errores' calls')"

text \<open>
  What pressing the fetch button ends with: the token warning, the range error, the
  "no matches" error with the collected errors, the stored table with the collected
  errors, or the general error of the outer \<^verbatim>\<open>except\<close>. Every frame in \<^verbatim>\<open>dfs\<close> has
  rows, hence the column \<^verbatim>\<open>event_key\<close>, so the guard before \<^verbatim>\<open>drop_duplicates\<close> holds.
  The progress bar is not modelled. The table is the list of rows as the normalizer made
  them: the cells of \<^verbatim>\<open>event_key\<close>, which are strings, and the choice of the rows kept
  are those of the data frame; where the name columns of two days hold values that are
  not strings, \<^verbatim>\<open>pd.concat\<close> may store them under a common column type, which this list
  does not follow.
\<close>

datatype fetch_outcome =
    TokenWarning
  | RangeError
  | NoMatches "string list"
  | Loaded "row list" "string list"
  | GeneralError py_error

definition do_fetch :: "upstream \<Rightarrow> zones \<Rightarrow> form \<Rightarrow> request list \<times> fetch_outcome" where
  "do_fetch up zones f =
     (if strip (betsapi_token f) = [] then ([], TokenWarning)
      else if fecha_hasta f < fecha_desde f then ([], RangeError)
      else
        (let total_dias = nat (fecha_hasta f - fecha_desde f + 1)
         in case days_loop up zones f [0..<total_dias] [] [] [] of
              (calls, Inl ex) \<Rightarrow> (calls, GeneralError ex)
            | (calls, Inr (dfs, errores)) \<Rightarrow>
                if dfs = [] then (calls, NoMatches errores)
                else (calls, Loaded (drop_duplicates [] (concat dfs)) errores)))"

section \<open>Notions used in the statements\<close>

fun is_str :: "json \<Rightarrow> bool" where
  "is_str (JStr s) = True"
| "is_str _ = False"

fun is_obj :: "json \<Rightarrow> bool" where
  "is_obj (JObj kv) = True"
| "is_obj _ = False"

text \<open>The keys of the row literal, in its order.\<close>

definition row_fields :: "string list" where
  "row_fields = [''event_key'', ''event_date'', ''event_time'', ''first_player'',
                 ''second_player'', ''tournament_name'', ''event_type_type'', ''event_status'']"

text \<open>A raw record that carries none of the five identifier fields.\<close>

definition no_identifier :: "(string \<times> json) list \<Rightarrow> bool" where
  "no_identifier it =
     list_all (\<lambda>k. map_of it k = None) [''id'', ''event_id'', ''FI'', ''match_id'', ''event_key'']"

text \<open>The records of a page whose \<^verbatim>\<open>results\<close> is a list; a page with success flag 1 and a
  non-empty list of results.\<close>

fun page_records :: "response \<Rightarrow> json list" where
  "page_records (Body (JObj payload)) =
     (case get_results payload of JList items \<Rightarrow> items | _ \<Rightarrow> [])"
| "page_records _ = []"

fun nonempty_page :: "response \<Rightarrow> bool" where
  "nonempty_page (Body (JObj payload)) =
     (py_eq_int (dict_get payload ''success'') 1 \<and>
      (case get_results payload of JList items \<Rightarrow> items \<noteq> [] | _ \<Rightarrow> False))"
| "nonempty_page _ = False"

text \<open>
  An answer of the shape the upstream interface documents: a failed call, or a
  dictionary whose results, where the loop reads them, are a list of dictionaries.
\<close>

fun well_formed :: "response \<Rightarrow> bool" where
  "well_formed (HttpError e) = True"
| "well_formed (Body (JObj payload)) =
     (if py_eq_int (dict_get payload ''success'') 1 \<and> truthy (get_results payload)
      then (case get_results payload of JList items \<Rightarrow> list_all is_obj items | _ \<Rightarrow> False)
      else True)"
| "well_formed (Body _) = False"

text \<open>What one day gives when its pagination is run on its own, from empty lists.\<close>

definition day_calls :: "upstream \<Rightarrow> form \<Rightarrow> int \<Rightarrow> request list" where
  "day_calls up f dia = fst (paginate up f dia [] 1 [] [])"

definition day_outcome :: "upstream \<Rightarrow> form \<Rightarrow> int \<Rightarrow> py_error + json list \<times> string list" where
  "day_outcome up f dia = snd (paginate up f dia [] 1 [] [])"

definition day_records :: "upstream \<Rightarrow> form \<Rightarrow> int \<Rightarrow> json list" where
  "day_records up f dia =
     (case day_outcome up f dia of Inr (recs, msgs) \<Rightarrow> recs | Inl ex \<Rightarrow> [])"

definition day_errors :: "upstream \<Rightarrow> form \<Rightarrow> int \<Rightarrow> string list" where
  "day_errors up f dia =
     (case day_outcome up f dia of Inr (recs, msgs) \<Rightarrow> msgs | Inl ex \<Rightarrow> [])"

definition day_rows :: "upstream \<Rightarrow> zones \<Rightarrow> form \<Rightarrow> int \<Rightarrow> row list" where
  "day_rows up zones f dia =
     (case normalize_result zones (JList (day_records up f dia)) (strip (timezone f)) of
        Inr rows \<Rightarrow> rows | Inl ex \<Rightarrow> [])"

text \<open>The days of the inclusive range, in the order the loop visits them.\<close>

definition range_days :: "form \<Rightarrow> int list" where
  "range_days f =
     map (\<lambda>i. fecha_desde f + int i) [0..<nat (fecha_hasta f - fecha_desde f + 1)]"

text \<open>A value that is absent, null or the empty string.\<close>

definition unset :: "json \<Rightarrow> bool" where
  "unset v = (v = JNull \<or> v = JStr [])"

text \<open>
  The candidate source keys of each field of the row, in the order in which the normalizer
  tries them.
\<close>

definition source_keys :: "string \<Rightarrow> string list" where
  "source_keys fld =
     (if fld = ''event_key'' then [''id'', ''event_id'', ''FI'', ''match_id'', ''event_key'']
      else if fld = ''event_date'' then [''time'', ''start_time'', ''kickoff'']
      else if fld = ''event_time'' then [''time'', ''start_time'', ''kickoff'']
      else if fld = ''first_player'' then [''home'', ''home_team'', ''home_player'']
      else if fld = ''second_player'' then [''away'', ''away_team'', ''away_player'']
      else if fld = ''tournament_name'' then [''league'']
      else if fld = ''event_type_type'' then [''sport_id'']
      else if fld = ''event_status'' then [''time_status'', ''status'']
      else [])"

text \<open>
  A field is unresolved in a record when none of its candidates before the last is truthy
  and the last one is absent, null or the empty string.
\<close>

fun unresolved :: "(string \<times> json) list \<Rightarrow> string list \<Rightarrow> bool" where
  "unresolved it [] = True"
| "unresolved it [k] = unset (dict_get it k)"
| "unresolved it (k # ks) = (\<not> truthy (dict_get it k) \<and> unresolved it ks)"

text \<open>The name fields read in a side object and in a league object.\<close>

definition side_names :: "string list" where
  "side_names = [''name'', ''name_en'', ''name_full'', ''name_short'']"

definition league_names :: "string list" where
  "league_names = [''name'', ''name_en'', ''cc'']"

text \<open>An object whose name fields, where given, hold strings; any value that is not an
  object.\<close>

fun names_are_strings :: "string list \<Rightarrow> json \<Rightarrow> bool" where
  "names_are_strings ks (JObj d) =
     list_all (\<lambda>k. is_str (dict_get d k) \<or> dict_get d k = JNull) ks"
| "names_are_strings ks v = True"

text \<open>An object with fields, none of whose name fields is truthy.\<close>

fun no_name :: "string list \<Rightarrow> json \<Rightarrow> bool" where
  "no_name ks (JObj d) = (d \<noteq> [] \<and> list_all (\<lambda>k. \<not> truthy (dict_get d k)) ks)"
| "no_name ks v = False"




section \<open>Example inputs\<close>

text \<open>A zone database that knows no name: every lookup falls back to UTC.\<close>

definition utc_only :: zones where
  "utc_only name = None"

text \<open>The form filled in for 2024-03-01 (day 19783) to 2024-03-03.\<close>

definition march_form :: form where
  "march_form = \<lparr>betsapi_token = ''tok'', sport_id = 13, scope_key = ''upcoming'',
                  fecha_desde = 19783, fecha_hasta = 19785, timezone = ''UTC''\<rparr>"

text \<open>The same form with no token and the dates 2024-03-05 to 2024-03-01.\<close>

definition reversed_form :: form where
  "reversed_form = \<lparr>betsapi_token = '''', sport_id = 13, scope_key = ''upcoming'',
                     fecha_desde = 19787, fecha_hasta = 19783, timezone = ''UTC''\<rparr>"

text \<open>An upstream that answers every call with one record.\<close>

definition always_one_record :: upstream where
  "always_one_record r =
     Body (JObj [(''success'', JInt 1),
                 (''results'', JList [JObj [(''id'', JInt (int (req_page r)))]])])"

text \<open>An upstream whose first page of 2024-03-01 and of 2024-03-02 each hold a record
  with the identifier 123, with different players; every other page is empty.\<close>

definition same_key_twice :: upstream where
  "same_key_twice r =
     (if req_page r = 1 \<and> req_day r = ''20240301''
      then Body (JObj [(''success'', JInt 1),
                       (''results'', JList [JObj [(''id'', JStr ''123''), (''home'', JStr ''A'')]])])
      else if req_page r = 1 \<and> req_day r = ''20240302''
      then Body (JObj [(''success'', JInt 1),
                       (''results'', JList [JObj [(''id'', JStr ''123''), (''home'', JStr ''B'')]])])
      else Body (JObj [(''success'', JInt 1), (''results'', JList [])]))"

text \<open>An upstream whose call fails on 2024-03-01, that reports failure on 2024-03-02, and
  that has one record on the first page of 2024-03-03.\<close>

definition two_bad_days :: upstream where
  "two_bad_days r =
     (if req_day r = ''20240301'' then HttpError ''timeout''
      else if req_day r = ''20240302''
      then Body (JObj [(''success'', JInt 0), (''error'', JStr ''AUTHORIZE_FAILED'')])
      else if req_page r = 1
      then Body (JObj [(''success'', JInt 1),
                       (''results'', JList [JObj [(''id'', JInt 7), (''home'', JStr ''A'')]])])
      else Body (JObj [(''success'', JInt 1), (''results'', JList [])]))"

text \<open>An upstream with one record on the first page of each day, except that the body of
  2024-03-02 is a JSON list instead of an object.\<close>

definition bad_second_day :: upstream where
  "bad_second_day r =
     (if req_day r = ''20240302'' then Body (JList [])
      else if req_page r = 1
      then Body (JObj [(''success'', JInt 1),
                       (''results'', JList [JObj [(''id'', JInt 7), (''home'', JStr ''A'')]])])
      else Body (JObj [(''success'', JInt 1), (''results'', JList [])]))"


section \<open>Properties\<close>

declare paginate.simps [simp del]

subsection \<open>Field extractor\<close>

lemma py_or_shape: "is_str b \<or> truthy b \<Longrightarrow> is_str (py_or a b) \<or> truthy (py_or a b)"
  by (simp add: py_or_def)

lemma shape_not_null: "is_str v \<or> truthy v \<Longrightarrow> v \<noteq> JNull"
  by auto

lemma extract_name_shape: "is_str (extract_name v) \<or> truthy (extract_name v)"
  by (cases v) (simp_all add: py_or_shape)

text \<open>
  Claim C1, as stated, fails: with both \<^verbatim>\<open>name_full\<close> and \<^verbatim>\<open>name\<close> the extractor returns
  the generic \<^verbatim>\<open>name\<close>, not the full name.
\<close>

theorem extract_name_full_name_counterexample:
  "extract_name (JObj [(''name_full'', JStr ''Rafael Nadal''), (''name'', JStr ''Nadal'')])
     = JStr ''Nadal'' \<and>
   extract_name (JObj [(''name_full'', JStr ''Rafael Nadal''), (''name'', JStr ''Nadal'')])
     \<noteq> JStr ''Rafael Nadal''"
  by (simp add: py_or_def dict_get_def)

text \<open>
  Claim C1, amended: for a side that is a JSON object the extractor returns the first
  truthy value among the fields \<^verbatim>\<open>name\<close>, \<^verbatim>\<open>name_en\<close>, \<^verbatim>\<open>name_full\<close>, \<^verbatim>\<open>name_short\<close>, in
  this order (so the generic name wins over the full name, and a lone generic name is
  returned), and the empty string when none is truthy; a plain string is returned as it
  is; an absent value gives the empty string.
\<close>

theorem extract_name_priority:
  "extract_name JNull = JStr [] \<and>
   extract_name (JStr s) = JStr s \<and>
   extract_name (JObj side) =
     (case find truthy
             (map (dict_get side) [''name'', ''name_en'', ''name_full'', ''name_short'']) of
        Some v \<Rightarrow> v
      | None \<Rightarrow> JStr [])"
  by (simp add: py_or_def)

theorem extract_name_priority_witness:
  "extract_name (JObj [(''name_short'', JStr ''R. Nadal''), (''name_en'', JStr '''')])
     = JStr ''R. Nadal''"
  using extract_name_priority [of "''''" "[(''name_short'', JStr ''R. Nadal''), (''name_en'', JStr '''')]"]
  by (simp add: dict_get_def)

subsection \<open>Timestamp localizer\<close>

lemma fmt_date_1: "fmt_date 1 = ''1970-01-01''"
  by code_simp

lemma fmt_time_1: "fmt_time 1 = ''00:00:01''"
  by code_simp

text \<open>
  Claim C2, as stated, fails: epoch 0 is falsy, so the first guard returns the pair of
  empty strings before any time zone is looked at.
\<close>

theorem convert_epoch_zero_counterexample:
  "convert_epoch_to_date_time utc_only (JInt 0) ''Invalid/Zone'' = ('''', '''') \<and>
   convert_epoch_to_date_time utc_only (JInt 0) ''Invalid/Zone'' \<noteq> (''1970-01-01'', ''00:00:00'')"
  by (simp add: convert_epoch_to_date_time_def)

text \<open>
  Claim C2, amended: for an absent epoch and for epoch 0 the localizer returns the pair
  of empty strings, whatever the time zone; with a time zone name that the database
  does not know it falls back to UTC for every non-zero epoch in the range of dates:
  epoch 1 gives ("1970-01-01", "00:00:01").
\<close>

theorem convert_epoch_fallback:
  "convert_epoch_to_date_time zones JNull tz_name = ('''', '''') \<and>
   convert_epoch_to_date_time zones (JInt 0) tz_name = ('''', '''') \<and>
   (zones tz_name = None \<longrightarrow>
      convert_epoch_to_date_time zones (JInt 1) tz_name = (''1970-01-01'', ''00:00:01'') \<and>
      (ts \<noteq> 0 \<and> in_datetime_range ts \<longrightarrow>
         convert_epoch_to_date_time zones (JInt ts) tz_name = (fmt_date ts, fmt_time ts)))"
  by (simp add: convert_epoch_to_date_time_def fromtimestamp_def astimezone_def
        resolve_tz_def fmt_date_1 fmt_time_1 in_datetime_range_def)

theorem convert_epoch_fallback_witness:
  "utc_only ''Invalid/Zone'' = None \<and>
   convert_epoch_to_date_time utc_only (JInt 86400) ''Invalid/Zone''
     = (''1970-01-02'', ''00:00:00'') \<and>
   convert_epoch_to_date_time utc_only JNull ''Invalid/Zone'' = ('''', '''')"
proof -
  have h: "utc_only ''Invalid/Zone'' = None" by (simp add: utc_only_def)
  have a: "fmt_date 86400 = ''1970-01-02''" by code_simp
  have b: "fmt_time 86400 = ''00:00:00''" by code_simp
  have c: "in_datetime_range 86400" by (simp add: in_datetime_range_def)
  from convert_epoch_fallback [of utc_only "''Invalid/Zone''" 86400] h a b c
  show ?thesis by simp
qed

subsection \<open>Record normalizer\<close>

lemma tournament_shape:
  "is_str (case lg of
             JObj l \<Rightarrow> py_or (dict_get l ''name'')
                        (py_or (dict_get l ''name_en'') (py_or (dict_get l ''cc'') (JStr [])))
           | _ \<Rightarrow> JStr (if lg \<noteq> JNull then py_str lg else []))
   \<or> truthy (case lg of
             JObj l \<Rightarrow> py_or (dict_get l ''name'')
                        (py_or (dict_get l ''name_en'') (py_or (dict_get l ''cc'') (JStr [])))
           | _ \<Rightarrow> JStr (if lg \<noteq> JNull then py_str lg else []))"
  by (cases lg) (simp_all add: py_or_shape)

lemma normalize_item_object:
  "\<exists>ek ed et fp sp tn ty st.
     normalize_item zones tz_name (JObj it) =
       Inr [(''event_key'', JStr ek), (''event_date'', JStr ed), (''event_time'', JStr et),
            (''first_player'', fp), (''second_player'', sp), (''tournament_name'', tn),
            (''event_type_type'', JStr ty), (''event_status'', JStr st)] \<and>
     (is_str fp \<or> truthy fp) \<and> (is_str sp \<or> truthy sp) \<and> (is_str tn \<or> truthy tn)"
proof -
  define fp where "fp = extract_name (py_or (dict_get it ''home'')
                   (py_or (dict_get it ''home_team'') (dict_get it ''home_player'')))"
  define sp where "sp = extract_name (py_or (dict_get it ''away'')
                   (py_or (dict_get it ''away_team'') (dict_get it ''away_player'')))"
  define lg where "lg = py_or (dict_get it ''league'') (JObj [])"
  define tn where "tn = (case lg of
             JObj l \<Rightarrow> py_or (dict_get l ''name'')
                        (py_or (dict_get l ''name_en'') (py_or (dict_get l ''cc'') (JStr [])))
           | _ \<Rightarrow> JStr (if lg \<noteq> JNull then py_str lg else []))"
  have fp: "is_str fp \<or> truthy fp" unfolding fp_def by (rule extract_name_shape)
  have sp: "is_str sp \<or> truthy sp" unfolding sp_def by (rule extract_name_shape)
  have tn: "is_str tn \<or> truthy tn" unfolding tn_def by (rule tournament_shape)
  obtain ek ed et ty st where
    "normalize_item zones tz_name (JObj it) =
       Inr [(''event_key'', JStr ek), (''event_date'', JStr ed), (''event_time'', JStr et),
            (''first_player'', fp), (''second_player'', sp), (''tournament_name'', tn),
            (''event_type_type'', JStr ty), (''event_status'', JStr st)]"
    unfolding normalize_item_def Let_def fp_def sp_def tn_def lg_def by simp
  with fp sp tn show ?thesis by blast
qed

lemma normalize_items_total:
  "list_all is_obj items \<Longrightarrow>
   \<exists>rows. normalize_items zones tz_name items = Inr rows \<and> length rows = length items"
proof (induction items)
  case Nil
  then show ?case by simp
next
  case (Cons x xs)
  then obtain it where x: "x = JObj it" by (cases x) auto
  obtain r where r: "normalize_item zones tz_name (JObj it) = Inr r"
    using normalize_item_object by blast
  from Cons obtain rows where "normalize_items zones tz_name xs = Inr rows"
    and "length rows = length xs"
    by auto
  with x r show ?case by simp
qed

lemma row_key_first: "row_key ((''event_key'', v) # r) = v"
  by (simp add: row_key_def dict_get_def)

text \<open>
  Claim C3, as stated, fails: a list item that is not a JSON object makes the normalizer
  raise (\<^verbatim>\<open>AttributeError\<close> at \<^verbatim>\<open>it.get("id")\<close>).
\<close>

theorem normalize_result_non_object_counterexample:
  "normalize_result utc_only (JList [JStr ''x'']) ''UTC'' = Inl AttributeError"
  by (simp add: normalize_result_def py_or_def normalize_item_def)

text \<open>
  Claim C3, amended: the Field Extractor returns a value for every input, the empty
  string for an absent one, the string coercion of anything that is not an object, and
  for an object a string or a truthy field value; the Record Normalizer returns one row
  per record, raising nothing, for every batch whose items are all JSON objects,
  whatever their fields hold, and no row for an absent batch.
\<close>

theorem normalizer_total_on_objects:
  "(is_str (extract_name v) \<or> truthy (extract_name v)) \<and>
   (\<not> is_obj v \<longrightarrow> extract_name v = JStr (if v = JNull then [] else py_str v)) \<and>
   normalize_result zones JNull tz_name = Inr [] \<and>
   (list_all is_obj items \<longrightarrow>
      (\<exists>rows. normalize_result zones (JList items) tz_name = Inr rows \<and>
              length rows = length items))"
proof (intro conjI impI)
  show "is_str (extract_name v) \<or> truthy (extract_name v)" by (rule extract_name_shape)
  show "extract_name v = JStr (if v = JNull then [] else py_str v)" if "\<not> is_obj v"
    using that by (cases v) simp_all
  show "normalize_result zones JNull tz_name = Inr []"
    by (simp add: normalize_result_def py_or_def)
  show "\<exists>rows. normalize_result zones (JList items) tz_name = Inr rows \<and>
          length rows = length items"
    if "list_all is_obj items"
    using normalize_items_total [OF that, of zones tz_name]
    by (cases items) (auto simp: normalize_result_def py_or_def)
qed

theorem normalizer_total_on_objects_witness:
  "list_all is_obj [JObj [(''time'', JStr ''soon''), (''home'', JList [JInt 1])], JObj []] \<and>
   (\<exists>rows. normalize_result utc_only
             (JList [JObj [(''time'', JStr ''soon''), (''home'', JList [JInt 1])], JObj []])
             ''UTC'' = Inr rows \<and> length rows = 2) \<and>
   extract_name (JList [JInt 1]) = JStr ''[1]''"
proof -
  have h: "list_all is_obj [JObj [(''time'', JStr ''soon''), (''home'', JList [JInt 1])], JObj []]"
    by simp
  have s: "py_str (JList [JInt 1]) = ''[1]''" by code_simp
  from normalizer_total_on_objects [of "JList [JInt 1]" utc_only "''UTC''"
      "[JObj [(''time'', JStr ''soon''), (''home'', JList [JInt 1])], JObj []]"] h s
  show ?thesis by (simp add: numeral_2_eq_2)
qed

text \<open>
  Claim C4, as stated, fails: the identifier \<^verbatim>\<open>id\<close> is present with the value 0, yet the
  key is taken from the later candidate \<^verbatim>\<open>event_id\<close>.
\<close>

theorem event_key_presence_counterexample:
  "map_sum id row_key
     (normalize_item utc_only ''UTC'' (JObj [(''id'', JInt 0), (''event_id'', JInt 5)]))
   = Inr (JStr ''5'')"
  by code_simp

text \<open>
  Claim C4, amended: for every raw record that is a JSON object, the normalized
  \<^verbatim>\<open>event_key\<close> is the first truthy value among \<^verbatim>\<open>id\<close>, \<^verbatim>\<open>event_id\<close>, \<^verbatim>\<open>FI\<close>, \<^verbatim>\<open>match_id\<close>,
  stringified; when none of the four is truthy it is the stringified value of the
  \<^verbatim>\<open>event_key\<close> field if that field is present and not null, else the empty string.
  Truthiness, not presence, decides; if none of the five fields is present the key is
  the empty string.
\<close>

theorem event_key_first_truthy:
  "map_sum id row_key (normalize_item zones tz_name (JObj it)) =
     Inr (JStr (case find truthy
                       (map (dict_get it) [''id'', ''event_id'', ''FI'', ''match_id'']) of
                  Some v \<Rightarrow> py_str v
                | None \<Rightarrow> (if dict_get it ''event_key'' = JNull then []
                           else py_str (dict_get it ''event_key'')))) \<and>
   (no_identifier it \<longrightarrow>
      map_sum id row_key (normalize_item zones tz_name (JObj it)) = Inr (JStr []))"
proof -
  define a b c d e where "a = dict_get it ''id''" and "b = dict_get it ''event_id''"
    and "c = dict_get it ''FI''" and "d = dict_get it ''match_id''"
    and "e = dict_get it ''event_key''"
  have key: "map_sum id row_key (normalize_item zones tz_name (JObj it)) =
     Inr (JStr (if py_or a (py_or b (py_or c (py_or d e))) \<noteq> JNull
                then py_str (py_or a (py_or b (py_or c (py_or d e)))) else []))"
    unfolding normalize_item_def Let_def a_def b_def c_def d_def e_def
    by (simp add: row_key_first)
  have sel: "(if py_or a (py_or b (py_or c (py_or d e))) \<noteq> JNull
                then py_str (py_or a (py_or b (py_or c (py_or d e)))) else []) =
             (case find truthy [a, b, c, d] of
                  Some v \<Rightarrow> py_str v
                | None \<Rightarrow> (if e = JNull then [] else py_str e))"
    by (auto simp: py_or_def)
  have none: "no_identifier it \<Longrightarrow>
               a = JNull \<and> b = JNull \<and> c = JNull \<and> d = JNull \<and> e = JNull"
    by (simp add: no_identifier_def dict_get_def a_def b_def c_def d_def e_def)
  show ?thesis
    unfolding key sel using none
    by (auto simp: a_def b_def c_def d_def e_def)
qed

theorem event_key_first_truthy_witness:
  "no_identifier [(''home'', JStr ''A'')] \<and>
   map_sum id row_key (normalize_item utc_only ''UTC'' (JObj [(''home'', JStr ''A'')]))
     = Inr (JStr []) \<and>
   map_sum id row_key
     (normalize_item utc_only ''UTC'' (JObj [(''id'', JStr []), (''event_key'', JInt 0)]))
     = Inr (JStr ''0'')"
proof -
  have h: "no_identifier [(''home'', JStr ''A'')]" by (simp add: no_identifier_def)
  have s: "py_str (JInt 0) = ''0''" by code_simp
  from event_key_first_truthy [of utc_only "''UTC''" "[(''home'', JStr ''A'')]"]
       event_key_first_truthy [of utc_only "''UTC''" "[(''id'', JStr []), (''event_key'', JInt 0)]"]
       h s
  show ?thesis by (simp add: dict_get_def)
qed

lemma unset_falsy: "unset v \<Longrightarrow> \<not> truthy v"
  by (auto simp: unset_def)

lemma py_or_unset: "\<not> truthy a \<Longrightarrow> unset b \<Longrightarrow> unset (py_or a b)"
  by (simp add: py_or_def)

lemma extract_name_unset: "unset v \<Longrightarrow> extract_name v = JStr []"
  by (auto simp: unset_def)

lemma names_are_strings_or:
  "names_are_strings ks a \<Longrightarrow> names_are_strings ks b \<Longrightarrow> names_are_strings ks (py_or a b)"
  by (simp add: py_or_def)

lemma str_or_null_chain:
  "is_str a \<or> a = JNull \<Longrightarrow> is_str b \<Longrightarrow> is_str (py_or a b)"
  by (auto simp: py_or_def)

lemma extract_name_string: "names_are_strings side_names v \<Longrightarrow> is_str (extract_name v)"
  by (cases v) (simp_all add: side_names_def str_or_null_chain)

lemma extract_name_no_name: "no_name side_names v \<Longrightarrow> extract_name v = JStr []"
  by (cases v) (simp_all add: side_names_def py_or_def)

lemma no_name_truthy: "no_name ks v \<Longrightarrow> truthy v"
  by (cases v) simp_all

lemma tournament_string:
  "names_are_strings league_names lg \<Longrightarrow>
   is_str (case py_or lg (JObj []) of
             JObj l \<Rightarrow> py_or (dict_get l ''name'')
                        (py_or (dict_get l ''name_en'') (py_or (dict_get l ''cc'') (JStr [])))
           | _ \<Rightarrow> JStr (if py_or lg (JObj []) \<noteq> JNull then py_str (py_or lg (JObj [])) else []))"
  by (cases lg) (auto simp: py_or_def league_names_def dict_get_def)

lemma tournament_empty:
  "unset lg \<or> no_name league_names lg \<Longrightarrow>
   (case py_or lg (JObj []) of
      JObj l \<Rightarrow> py_or (dict_get l ''name'')
                 (py_or (dict_get l ''name_en'') (py_or (dict_get l ''cc'') (JStr [])))
    | _ \<Rightarrow> JStr (if py_or lg (JObj []) \<noteq> JNull then py_str (py_or lg (JObj [])) else []))
   = JStr []"
  by (cases lg) (auto simp: py_or_def league_names_def dict_get_def unset_def)

lemma normalize_item_cells:
  "normalize_item zones tz_name (JObj it) =
     Inr [(''event_key'',
             JStr (if py_or (dict_get it ''id'') (py_or (dict_get it ''event_id'')
                        (py_or (dict_get it ''FI'')
                           (py_or (dict_get it ''match_id'') (dict_get it ''event_key''))))
                      \<noteq> JNull
                   then py_str (py_or (dict_get it ''id'') (py_or (dict_get it ''event_id'')
                        (py_or (dict_get it ''FI'')
                           (py_or (dict_get it ''match_id'') (dict_get it ''event_key'')))))
                   else [])),
          (''event_date'',
             JStr (fst (convert_epoch_to_date_time zones
                          (py_or (dict_get it ''time'')
                             (py_or (dict_get it ''start_time'') (dict_get it ''kickoff'')))
                          tz_name))),
          (''event_time'',
             JStr (snd (convert_epoch_to_date_time zones
                          (py_or (dict_get it ''time'')
                             (py_or (dict_get it ''start_time'') (dict_get it ''kickoff'')))
                          tz_name))),
          (''first_player'',
             extract_name (py_or (dict_get it ''home'')
                             (py_or (dict_get it ''home_team'') (dict_get it ''home_player'')))),
          (''second_player'',
             extract_name (py_or (dict_get it ''away'')
                             (py_or (dict_get it ''away_team'') (dict_get it ''away_player'')))),
          (''tournament_name'',
             (case py_or (dict_get it ''league'') (JObj []) of
                JObj l \<Rightarrow> py_or (dict_get l ''name'')
                           (py_or (dict_get l ''name_en'') (py_or (dict_get l ''cc'') (JStr [])))
              | _ \<Rightarrow> JStr (if py_or (dict_get it ''league'') (JObj []) \<noteq> JNull
                           then py_str (py_or (dict_get it ''league'') (JObj [])) else []))),
          (''event_type_type'', JStr (py_str (py_or (dict_get it ''sport_id'') (JStr [])))),
          (''event_status'',
             JStr (py_str (py_or (dict_get it ''time_status'')
                             (py_or (dict_get it ''status'') (JStr [])))))]"
  by (simp add: normalize_item_def Let_def)

text \<open>
  Claim C5, as stated, fails: a side object whose \<^verbatim>\<open>name\<close> is the number 5 gives a
  \<^verbatim>\<open>first_player\<close> that is that number, not a string; and a raw record that is not an
  object gives no row at all.
\<close>

theorem row_values_string_counterexample:
  "map_sum id (\<lambda>r. dict_get r ''first_player'')
     (normalize_item utc_only ''UTC'' (JObj [(''home'', JObj [(''name'', JInt 5)])]))
   = Inr (JInt 5) \<and>
   normalize_item utc_only ''UTC'' (JStr ''x'') = Inl AttributeError"
proof
  show "map_sum id (\<lambda>r. dict_get r ''first_player'')
     (normalize_item utc_only ''UTC'' (JObj [(''home'', JObj [(''name'', JInt 5)])]))
   = Inr (JInt 5)"
    by code_simp
  show "normalize_item utc_only ''UTC'' (JStr ''x'') = Inl AttributeError"
    by (simp add: normalize_item_def)
qed

text \<open>
  Claim C5, amended: every row that the Record Normalizer produces from a raw record that
  is a JSON object has exactly the eight fields, in the order of the schema, and none of
  them is absent or null; \<^verbatim>\<open>event_key\<close>, \<^verbatim>\<open>event_date\<close>, \<^verbatim>\<open>event_time\<close>,
  \<^verbatim>\<open>event_type_type\<close> and \<^verbatim>\<open>event_status\<close> are strings; \<^verbatim>\<open>first_player\<close>,
  \<^verbatim>\<open>second_player\<close> and \<^verbatim>\<open>tournament_name\<close> are strings whenever the name fields of the
  side and league objects hold strings; and every unresolved value is the empty string:
  each field whose candidate source fields are not given, and each name taken from a side
  or league object that has no name.
\<close>

theorem normalize_item_row_shape:
  "\<exists>r. normalize_item zones tz_name (JObj it) = Inr r \<and>
       map fst r = row_fields \<and>
       (\<forall>v \<in> set (map snd r). v \<noteq> JNull) \<and>
       (\<forall>k \<in> set [''event_key'', ''event_date'', ''event_time'', ''event_type_type'',
                   ''event_status'']. is_str (dict_get r k)) \<and>
       (list_all (names_are_strings side_names)
          (map (dict_get it) [''home'', ''home_team'', ''home_player''])
          \<longrightarrow> is_str (dict_get r ''first_player'')) \<and>
       (list_all (names_are_strings side_names)
          (map (dict_get it) [''away'', ''away_team'', ''away_player''])
          \<longrightarrow> is_str (dict_get r ''second_player'')) \<and>
       (names_are_strings league_names (dict_get it ''league'')
          \<longrightarrow> is_str (dict_get r ''tournament_name'')) \<and>
       (\<forall>fld \<in> set row_fields.
          unresolved it (source_keys fld) \<longrightarrow> dict_get r fld = JStr []) \<and>
       (no_name side_names (dict_get it ''home'') \<longrightarrow> dict_get r ''first_player'' = JStr []) \<and>
       (no_name side_names (dict_get it ''away'') \<longrightarrow> dict_get r ''second_player'' = JStr []) \<and>
       (no_name league_names (dict_get it ''league'')
          \<longrightarrow> dict_get r ''tournament_name'' = JStr [])"
proof -
  define ek where "ek = py_or (dict_get it ''id'') (py_or (dict_get it ''event_id'')
                        (py_or (dict_get it ''FI'')
                           (py_or (dict_get it ''match_id'') (dict_get it ''event_key''))))"
  define tm where "tm = py_or (dict_get it ''time'')
                             (py_or (dict_get it ''start_time'') (dict_get it ''kickoff''))"
  define hm where "hm = py_or (dict_get it ''home'')
                             (py_or (dict_get it ''home_team'') (dict_get it ''home_player''))"
  define aw where "aw = py_or (dict_get it ''away'')
                             (py_or (dict_get it ''away_team'') (dict_get it ''away_player''))"
  define tn where "tn = (case py_or (dict_get it ''league'') (JObj []) of
                JObj l \<Rightarrow> py_or (dict_get l ''name'')
                           (py_or (dict_get l ''name_en'') (py_or (dict_get l ''cc'') (JStr [])))
              | _ \<Rightarrow> JStr (if py_or (dict_get it ''league'') (JObj []) \<noteq> JNull
                           then py_str (py_or (dict_get it ''league'') (JObj [])) else []))"
  define ty where "ty = py_or (dict_get it ''sport_id'') (JStr [])"
  define st where "st = py_or (dict_get it ''time_status'') (py_or (dict_get it ''status'') (JStr []))"
  define r where "r = [(''event_key'', JStr (if ek \<noteq> JNull then py_str ek else [])),
          (''event_date'', JStr (fst (convert_epoch_to_date_time zones tm tz_name))),
          (''event_time'', JStr (snd (convert_epoch_to_date_time zones tm tz_name))),
          (''first_player'', extract_name hm),
          (''second_player'', extract_name aw),
          (''tournament_name'', tn),
          (''event_type_type'', JStr (py_str ty)),
          (''event_status'', JStr (py_str st))]"
  have eq: "normalize_item zones tz_name (JObj it) = Inr r"
    unfolding r_def ek_def tm_def hm_def aw_def tn_def ty_def st_def
    by (rule normalize_item_cells)
  have cells:
    "dict_get r ''event_key'' = JStr (if ek \<noteq> JNull then py_str ek else [])"
    "dict_get r ''event_date'' = JStr (fst (convert_epoch_to_date_time zones tm tz_name))"
    "dict_get r ''event_time'' = JStr (snd (convert_epoch_to_date_time zones tm tz_name))"
    "dict_get r ''first_player'' = extract_name hm"
    "dict_get r ''second_player'' = extract_name aw"
    "dict_get r ''tournament_name'' = tn"
    "dict_get r ''event_type_type'' = JStr (py_str ty)"
    "dict_get r ''event_status'' = JStr (py_str st)"
    by (simp_all add: r_def dict_get_def)
  have shape: "is_str tn \<or> truthy tn" "is_str (extract_name hm) \<or> truthy (extract_name hm)"
    "is_str (extract_name aw) \<or> truthy (extract_name aw)"
    unfolding tn_def by (rule tournament_shape extract_name_shape)+
  have fields: "map fst r = row_fields"
    by (simp add: r_def row_fields_def)
  have nonnull: "\<forall>v \<in> set (map snd r). v \<noteq> JNull"
    using shape by (auto simp: r_def dest: shape_not_null)
  have strs: "\<forall>k \<in> set [''event_key'', ''event_date'', ''event_time'', ''event_type_type'',
                   ''event_status'']. is_str (dict_get r k)"
    by (simp add: cells)
  have fp: "is_str (dict_get r ''first_player'')"
    if "list_all (names_are_strings side_names)
          (map (dict_get it) [''home'', ''home_team'', ''home_player''])"
    using that unfolding cells hm_def
    by (intro extract_name_string names_are_strings_or) simp_all
  have sp: "is_str (dict_get r ''second_player'')"
    if "list_all (names_are_strings side_names)
          (map (dict_get it) [''away'', ''away_team'', ''away_player''])"
    using that unfolding cells aw_def
    by (intro extract_name_string names_are_strings_or) simp_all
  have tp: "is_str (dict_get r ''tournament_name'')"
    if "names_are_strings league_names (dict_get it ''league'')"
    unfolding cells tn_def by (rule tournament_string [OF that])
  have un_ek: "dict_get r ''event_key'' = JStr []"
    if "unresolved it [''id'', ''event_id'', ''FI'', ''match_id'', ''event_key'']"
  proof -
    from that have "unset ek" unfolding ek_def by (simp add: py_or_unset)
    then show ?thesis by (auto simp: cells unset_def)
  qed
  have un_tm: "dict_get r ''event_date'' = JStr [] \<and> dict_get r ''event_time'' = JStr []"
    if "unresolved it [''time'', ''start_time'', ''kickoff'']"
  proof -
    from that have "unset tm" unfolding tm_def by (simp add: py_or_unset)
    then have "\<not> truthy tm" by (rule unset_falsy)
    then show ?thesis by (simp add: cells convert_epoch_to_date_time_def)
  qed
  have un_hm: "dict_get r ''first_player'' = JStr []"
    if "unresolved it [''home'', ''home_team'', ''home_player'']"
  proof -
    from that have "unset hm" unfolding hm_def by (simp add: py_or_unset)
    then show ?thesis by (simp add: cells extract_name_unset)
  qed
  have un_aw: "dict_get r ''second_player'' = JStr []"
    if "unresolved it [''away'', ''away_team'', ''away_player'']"
  proof -
    from that have "unset aw" unfolding aw_def by (simp add: py_or_unset)
    then show ?thesis by (simp add: cells extract_name_unset)
  qed
  have un_tn: "dict_get r ''tournament_name'' = JStr []"
    if "unresolved it [''league'']"
    using that unfolding cells tn_def by (intro tournament_empty) simp
  have un_ty: "dict_get r ''event_type_type'' = JStr []"
    if "unresolved it [''sport_id'']"
    using that by (auto simp: cells ty_def py_or_def unset_def)
  have un_st: "dict_get r ''event_status'' = JStr []"
    if "unresolved it [''time_status'', ''status'']"
    using that by (auto simp: cells st_def py_or_def unset_def)
  have unres: "\<forall>fld \<in> set row_fields.
                 unresolved it (source_keys fld) \<longrightarrow> dict_get r fld = JStr []"
    using un_ek un_tm un_hm un_aw un_tn un_ty un_st
    by (simp add: row_fields_def source_keys_def)
  have nn_hm: "dict_get r ''first_player'' = JStr []"
    if "no_name side_names (dict_get it ''home'')"
  proof -
    from that have "hm = dict_get it ''home''"
      unfolding hm_def by (simp add: py_or_def no_name_truthy)
    with that show ?thesis by (simp add: cells extract_name_no_name)
  qed
  have nn_aw: "dict_get r ''second_player'' = JStr []"
    if "no_name side_names (dict_get it ''away'')"
  proof -
    from that have "aw = dict_get it ''away''"
      unfolding aw_def by (simp add: py_or_def no_name_truthy)
    with that show ?thesis by (simp add: cells extract_name_no_name)
  qed
  have nn_tn: "dict_get r ''tournament_name'' = JStr []"
    if "no_name league_names (dict_get it ''league'')"
    using that unfolding cells tn_def by (intro tournament_empty) simp
  show ?thesis
    using eq fields nonnull strs fp sp tp unres nn_hm nn_aw nn_tn by blast
qed

theorem normalize_item_row_shape_witness:
  "\<exists>r. normalize_item utc_only ''UTC''
          (JObj [(''id'', JInt 7), (''home'', JObj [(''name'', JStr ''A'')]),
                 (''away'', JObj [(''id'', JInt 3)])]) = Inr r \<and>
       map fst r = row_fields \<and>
       is_str (dict_get r ''first_player'') \<and>
       dict_get r ''second_player'' = JStr [] \<and>
       dict_get r ''tournament_name'' = JStr [] \<and>
       dict_get r ''event_date'' = JStr [] \<and>
       dict_get r ''event_status'' = JStr []"
proof -
  let ?it = "[(''id'', JInt 7), (''home'', JObj [(''name'', JStr ''A'')]),
              (''away'', JObj [(''id'', JInt 3)])]"
  have a: "list_all (names_are_strings side_names)
             (map (dict_get ?it) [''home'', ''home_team'', ''home_player''])"
    by (simp add: side_names_def dict_get_def)
  have b: "no_name side_names (dict_get ?it ''away'')"
    by (simp add: side_names_def dict_get_def)
  have c: "unresolved ?it (source_keys ''tournament_name'')"
    "unresolved ?it (source_keys ''event_date'')"
    "unresolved ?it (source_keys ''event_status'')"
    by (simp_all add: source_keys_def dict_get_def unset_def)
  have d: "''tournament_name'' \<in> set row_fields" "''event_date'' \<in> set row_fields"
    "''event_status'' \<in> set row_fields"
    by (simp_all add: row_fields_def)
  from normalize_item_row_shape [of utc_only "''UTC''" ?it] a b c d
  show ?thesis by blast
qed


subsection \<open>Day paginator\<close>

lemma fetch_page_nonempty:
  "nonempty_page (up (day_request f dia pg)) \<Longrightarrow>
   fetch_page up f dia pg = More (page_records (up (day_request f dia pg)))"
  by (cases "up (day_request f dia pg)" rule: nonempty_page.cases)
     (auto simp: fetch_page_def fetch_api_day_def day_request_def split: json.splits)

lemma paginate_full:
  assumes "\<forall>pg. 1 \<le> pg \<and> pg \<le> MAX_PAGES_PER_DAY \<longrightarrow>
             nonempty_page (up (day_request f dia pg))"
  shows "1 \<le> k \<Longrightarrow> k \<le> MAX_PAGES_PER_DAY \<Longrightarrow>
    paginate up f dia acc k errores calls =
      (calls @ map (day_request f dia) [k..<Suc MAX_PAGES_PER_DAY],
       Inr (acc @ concat (map (\<lambda>pg. page_records (up (day_request f dia pg)))
                          [k..<Suc MAX_PAGES_PER_DAY]),
            errores @ [msg_ceiling (fmt_day dia)]))"
proof (induction "MAX_PAGES_PER_DAY - k" arbitrary: k acc calls)
  case 0
  then have ge: "MAX_PAGES_PER_DAY < Suc k" by simp
  have fp: "fetch_page up f dia k = More (page_records (up (day_request f dia k)))"
    using assms 0 by (intro fetch_page_nonempty) simp
  have up: "[k..<Suc MAX_PAGES_PER_DAY] = [k]"
    using 0 by (simp add: upt_conv_Cons)
  show ?case
    unfolding up using ge by (subst paginate.simps) (simp add: fp)
next
  case (Suc n)
  then have lt: "\<not> MAX_PAGES_PER_DAY < Suc k" by simp
  have fp: "fetch_page up f dia k = More (page_records (up (day_request f dia k)))"
    using assms Suc.prems by (intro fetch_page_nonempty) simp
  have n: "n = MAX_PAGES_PER_DAY - Suc k" using Suc.hyps(2) by simp
  have ih: "paginate up f dia (acc @ page_records (up (day_request f dia k))) (Suc k) errores
              (calls @ [day_request f dia k]) =
      ((calls @ [day_request f dia k]) @ map (day_request f dia) [Suc k..<Suc MAX_PAGES_PER_DAY],
       Inr ((acc @ page_records (up (day_request f dia k))) @
              concat (map (\<lambda>pg. page_records (up (day_request f dia pg)))
                       [Suc k..<Suc MAX_PAGES_PER_DAY]),
            errores @ [msg_ceiling (fmt_day dia)]))"
    using lt by (intro Suc.hyps(1)[OF n]) simp_all
  have up: "[k..<Suc MAX_PAGES_PER_DAY] = k # [Suc k..<Suc MAX_PAGES_PER_DAY]"
    using lt by (simp add: upt_conv_Cons)
  show ?case
    unfolding up using lt by (subst paginate.simps) (simp add: fp ih)
qed

text \<open>
  Claim C6: if every call for a day is answered with a non-empty results page, the loop
  of that day ends after exactly \<^verbatim>\<open>MAX_PAGES_PER_DAY\<close> = 20 calls (pages 1 to 20), with
  the records of these 20 pages accumulated and exactly one ceiling message appended to
  the error list. The loop is a total function: it ends on every upstream.
\<close>

theorem paginate_ceiling:
  assumes "\<forall>pg. nonempty_page (up (day_request f dia pg))"
  shows "paginate up f dia [] 1 errores calls =
           (calls @ map (day_request f dia) [1..<Suc MAX_PAGES_PER_DAY],
            Inr (concat (map (\<lambda>pg. page_records (up (day_request f dia pg)))
                          [1..<Suc MAX_PAGES_PER_DAY]),
                 errores @ [msg_ceiling (fmt_day dia)])) \<and>
         length [1..<Suc MAX_PAGES_PER_DAY] = 20"
proof -
  have "1 \<le> MAX_PAGES_PER_DAY" by (simp add: MAX_PAGES_PER_DAY_def)
  with assms paginate_full [of up f dia 1 "[]" errores calls]
  show ?thesis by (simp add: MAX_PAGES_PER_DAY_def)
qed

theorem paginate_ceiling_witness:
  "(\<forall>pg. nonempty_page (always_one_record (day_request march_form 19783 pg))) \<and>
   snd (paginate always_one_record march_form 19783 [] 1 [] []) =
     Inr (map (\<lambda>pg. JObj [(''id'', JInt (int pg))]) [1..<21],
          [msg_ceiling ''2024-03-01'']) \<and>
   length (fst (paginate always_one_record march_form 19783 [] 1 [] [])) = 20"
proof -
  have h: "\<forall>pg. nonempty_page (always_one_record (day_request march_form 19783 pg))"
    by (simp add: always_one_record_def get_results_def dict_get_def)
  have d: "fmt_day 19783 = ''2024-03-01''" by code_simp
  have r: "\<And>pg. page_records (always_one_record (day_request march_form 19783 pg)) =
             [JObj [(''id'', JInt (int pg))]]"
    by (simp add: always_one_record_def get_results_def dict_get_def day_request_def
          api_request_def)
  from paginate_ceiling [OF h, of "[]" "[]"] d r
  show ?thesis by (simp add: h MAX_PAGES_PER_DAY_def del: upt_Suc)
qed

subsection \<open>Range validation\<close>

text \<open>
  Claim C7, as stated, fails: the token is checked before the dates, so with a blank
  token and the dates 2024-03-05 to 2024-03-01 the fetch ends with the token warning,
  not with the range error.
\<close>

theorem range_error_blank_token_counterexample:
  "do_fetch always_one_record utc_only reversed_form = ([], TokenWarning) \<and>
   fecha_hasta reversed_form < fecha_desde reversed_form \<and>
   snd (do_fetch always_one_record utc_only reversed_form) \<noteq> RangeError"
  by (simp add: do_fetch_def reversed_form_def strip_def)

text \<open>
  Claim C7, amended: for every pair of dates with the end date strictly before the start
  date the fetch makes no upstream call at all; with a token that is not blank it ends
  at once with the range error, and with a blank token it ends with the token warning.
\<close>

theorem range_error_no_calls:
  assumes "fecha_hasta f < fecha_desde f"
  shows "fst (do_fetch up zones f) = [] \<and>
         snd (do_fetch up zones f) =
           (if strip (betsapi_token f) = [] then TokenWarning else RangeError)"
  using assms by (simp add: do_fetch_def)

theorem range_error_no_calls_witness:
  "fecha_hasta (reversed_form\<lparr>betsapi_token := '' tok ''\<rparr>)
     < fecha_desde (reversed_form\<lparr>betsapi_token := '' tok ''\<rparr>) \<and>
   do_fetch always_one_record utc_only (reversed_form\<lparr>betsapi_token := '' tok ''\<rparr>)
     = ([], RangeError)"
proof -
  have h: "fecha_hasta (reversed_form\<lparr>betsapi_token := '' tok ''\<rparr>)
             < fecha_desde (reversed_form\<lparr>betsapi_token := '' tok ''\<rparr>)"
    by (simp add: reversed_form_def)
  have s: "strip '' tok '' = ''tok''" by code_simp
  from range_error_no_calls [OF h, of always_one_record utc_only] h s
  show ?thesis by (simp add: prod_eq_iff)
qed

subsection \<open>Deduplication\<close>

lemma drop_duplicates_filter:
  "filter (\<lambda>r. row_key r = k) (drop_duplicates seen rs) =
     (if k \<in> set seen then [] else take 1 (filter (\<lambda>r. row_key r = k) rs))"
proof (induction rs arbitrary: seen)
  case Nil
  then show ?case by simp
next
  case (Cons r rs)
  show ?case
  proof (cases "row_key r \<in> set seen")
    case True
    then show ?thesis using Cons.IH [of seen] by auto
  next
    case False
    then show ?thesis using Cons.IH [of "row_key r # seen"] by auto
  qed
qed

lemma drop_duplicates_keys:
  "distinct (map row_key (drop_duplicates seen rs)) \<and>
   set (map row_key (drop_duplicates seen rs)) \<inter> set seen = {}"
proof (induction rs arbitrary: seen)
  case Nil
  then show ?case by simp
next
  case (Cons r rs)
  show ?case
  proof (cases "row_key r \<in> set seen")
    case True
    then show ?thesis using Cons.IH [of seen] by simp
  next
    case False
    then show ?thesis using Cons.IH [of "row_key r # seen"] by auto
  qed
qed

subsection \<open>Range orchestrator\<close>

lemma paginate_append:
  "paginate up f dia acc pg errores calls =
     (case paginate up f dia [] pg [] [] of
        (cs, Inl ex) \<Rightarrow> (calls @ cs, Inl ex)
      | (cs, Inr (recs, msgs)) \<Rightarrow> (calls @ cs, Inr (acc @ recs, errores @ msgs)))"
proof (induction "MAX_PAGES_PER_DAY - pg" arbitrary: pg acc errores calls)
  case 0
  then have ge: "MAX_PAGES_PER_DAY < Suc pg" by simp
  show ?case
    using ge
    by (subst paginate.simps, subst (2) paginate.simps)
       (simp split: page_result.splits)
next
  case (Suc n)
  then have lt: "\<not> MAX_PAGES_PER_DAY < Suc pg" and n: "n = MAX_PAGES_PER_DAY - Suc pg"
    by simp_all
  show ?case
  proof (cases "fetch_page up f dia pg")
    case (More items)
    have a: "paginate up f dia (acc @ items) (Suc pg) errores (calls @ [day_request f dia pg]) =
       (case paginate up f dia [] (Suc pg) [] [] of
          (cs, Inl ex) \<Rightarrow> ((calls @ [day_request f dia pg]) @ cs, Inl ex)
        | (cs, Inr (recs, msgs)) \<Rightarrow>
            ((calls @ [day_request f dia pg]) @ cs, Inr ((acc @ items) @ recs, errores @ msgs)))"
      by (rule Suc.hyps(1)[OF n])
    have b: "paginate up f dia items (Suc pg) [] [day_request f dia pg] =
       (case paginate up f dia [] (Suc pg) [] [] of
          (cs, Inl ex) \<Rightarrow> ([day_request f dia pg] @ cs, Inl ex)
        | (cs, Inr (recs, msgs)) \<Rightarrow>
            ([day_request f dia pg] @ cs, Inr (items @ recs, [] @ msgs)))"
      by (rule Suc.hyps(1)[OF n])
    show ?thesis
      using lt
      by (subst paginate.simps, subst (2) paginate.simps)
         (simp add: More a b split: prod.splits sum.splits)
  qed (subst paginate.simps, subst (2) paginate.simps, simp)+
qed

lemma paginate_day:
  "paginate up f dia [] (Suc 0) errores calls =
     (case day_outcome up f dia of
        Inl ex \<Rightarrow> (calls @ day_calls up f dia, Inl ex)
      | Inr (recs, msgs) \<Rightarrow> (calls @ day_calls up f dia, Inr (recs, errores @ msgs)))"
  by (subst paginate_append)
     (simp add: day_calls_def day_outcome_def split: prod.splits sum.splits)

lemma paginate_calls_prefix:
  "\<exists>cs. fst (paginate up f dia acc pg errores calls) = calls @ cs"
  by (subst paginate_append) (simp split: prod.splits sum.splits)

lemma day_calls_first: "\<exists>cs. day_calls up f dia = day_request f dia 1 # cs"
proof -
  have "\<exists>cs. fst (paginate up f dia acc pg errores [day_request f dia 1]) = day_request f dia 1 # cs"
    for acc pg errores
    using paginate_calls_prefix [of up f dia acc pg errores "[day_request f dia 1]"] by simp
  then show ?thesis
    unfolding day_calls_def
    by (subst paginate.simps) (auto split: page_result.splits)
qed

lemma concat_filter_nonempty: "concat (filter (\<lambda>d. d \<noteq> []) xs) = concat xs"
  by (induction xs) auto

lemma normalize_result_nil: "normalize_result zones (JList []) tz_name = Inr []"
  by (simp add: normalize_result_def py_or_def)

lemma days_loop_result:
  "days_loop up zones f idx dfs errores calls = (calls', Inr (dfs', errores')) \<Longrightarrow>
   calls' = calls @ concat (map (\<lambda>i. day_calls up f (fecha_desde f + int i)) idx) \<and>
   dfs' = dfs @ filter (\<lambda>d. d \<noteq> [])
                  (map (\<lambda>i. day_rows up zones f (fecha_desde f + int i)) idx) \<and>
   errores' = errores @ concat (map (\<lambda>i. day_errors up f (fecha_desde f + int i)) idx)"
proof (induction idx arbitrary: dfs errores calls)
  case Nil
  then show ?case by simp
next
  case (Cons i idx)
  let ?dia = "fecha_desde f + int i"
  obtain recs msgs where day: "day_outcome up f ?dia = Inr (recs, msgs)"
    using Cons.prems
    by (cases "day_outcome up f ?dia") (auto simp: paginate_day)
  have pg: "paginate up f ?dia [] (Suc 0) errores calls =
              (calls @ day_calls up f ?dia, Inr (recs, errores @ msgs))"
    by (simp add: paginate_day day)
  have recs: "day_records up f ?dia = recs" and msgs: "day_errors up f ?dia = msgs"
    by (simp_all add: day_records_def day_errors_def day)
  show ?case
  proof (cases "recs = []")
    case True
    then have rows: "day_rows up zones f ?dia = []"
      by (simp add: day_rows_def recs normalize_result_nil)
    from Cons.prems have
      "days_loop up zones f idx dfs (errores @ msgs) (calls @ day_calls up f ?dia)
         = (calls', Inr (dfs', errores'))"
      by (simp add: pg True)
    from Cons.IH [OF this] show ?thesis by (simp add: rows msgs)
  next
    case False
    then obtain df where df: "normalize_result zones (JList recs) (strip (timezone f)) = Inr df"
      using Cons.prems
      by (cases "normalize_result zones (JList recs) (strip (timezone f))") (auto simp: pg)
    then have rows: "day_rows up zones f ?dia = df"
      by (simp add: day_rows_def recs)
    from Cons.prems have
      "days_loop up zones f idx (if df \<noteq> [] then dfs @ [df] else dfs) (errores @ msgs)
         (calls @ day_calls up f ?dia) = (calls', Inr (dfs', errores'))"
      by (simp add: pg False df)
    from Cons.IH [OF this] show ?thesis by (simp add: rows msgs)
  qed
qed

text \<open>
  Claim C8: the stored table is the concatenation of the days' normalized rows,
  deduplicated by \<^verbatim>\<open>event_key\<close> with the first occurrence kept: its keys are distinct, and
  for every key it holds exactly the first row with that key in the order of the days
  (so of two days that yield the same key, the row of the first day is the one kept).
\<close>

theorem dedup_keeps_first:
  assumes "snd (do_fetch up zones f) = Loaded rows errores"
  shows "distinct (map row_key rows) \<and>
         (\<forall>k. filter (\<lambda>r. row_key r = k) rows =
                take 1 (filter (\<lambda>r. row_key r = k)
                          (concat (map (day_rows up zones f) (range_days f)))))"
proof -
  let ?n = "nat (fecha_hasta f - fecha_desde f + 1)"
  from assms obtain calls dfs where
    loop: "days_loop up zones f [0..<?n] [] [] [] = (calls, Inr (dfs, errores))"
    and rows: "rows = drop_duplicates [] (concat dfs)"
    by (auto simp: do_fetch_def Let_def split: if_splits prod.splits sum.splits)
  from days_loop_result [OF loop]
  have "concat dfs = concat (map (day_rows up zones f) (range_days f))"
    by (simp add: concat_filter_nonempty range_days_def comp_def)
  then show ?thesis
    using drop_duplicates_keys [of "[]" "concat dfs"]
    by (simp add: rows drop_duplicates_filter)
qed

theorem dedup_keeps_first_witness:
  "snd (do_fetch same_key_twice utc_only march_form) =
     Loaded [[(''event_key'', JStr ''123''), (''event_date'', JStr []),
              (''event_time'', JStr []), (''first_player'', JStr ''A''),
              (''second_player'', JStr []), (''tournament_name'', JStr []),
              (''event_type_type'', JStr []), (''event_status'', JStr [])]] [] \<and>
   take 1 (filter (\<lambda>r. row_key r = JStr ''123'')
             (concat (map (day_rows same_key_twice utc_only march_form)
                        (range_days march_form)))) =
     [[(''event_key'', JStr ''123''), (''event_date'', JStr []),
       (''event_time'', JStr []), (''first_player'', JStr ''A''),
       (''second_player'', JStr []), (''tournament_name'', JStr []),
       (''event_type_type'', JStr []), (''event_status'', JStr [])]]"
proof -
  have h: "snd (do_fetch same_key_twice utc_only march_form) =
     Loaded [[(''event_key'', JStr ''123''), (''event_date'', JStr []),
              (''event_time'', JStr []), (''first_player'', JStr ''A''),
              (''second_player'', JStr []), (''tournament_name'', JStr []),
              (''event_type_type'', JStr []), (''event_status'', JStr [])]] []"
    by code_simp
  from dedup_keeps_first [OF h] have
    "filter (\<lambda>r. row_key r = JStr ''123'')
       [[(''event_key'', JStr ''123''), (''event_date'', JStr []),
         (''event_time'', JStr []), (''first_player'', JStr ''A''),
         (''second_player'', JStr []), (''tournament_name'', JStr []),
         (''event_type_type'', JStr []), (''event_status'', JStr [])]] =
     take 1 (filter (\<lambda>r. row_key r = JStr ''123'')
               (concat (map (day_rows same_key_twice utc_only march_form)
                          (range_days march_form))))"
    by blast
  then show ?thesis using h by (simp add: row_key_first)
qed

lemma fetch_page_well_formed:
  assumes "well_formed (up (day_request f dia pg))"
  shows "\<forall>ex. fetch_page up f dia pg \<noteq> Raise ex"
    and "fetch_page up f dia pg = More items \<Longrightarrow> list_all is_obj items"
  using assms
  by (cases "up (day_request f dia pg)" rule: well_formed.cases;
      auto simp: fetch_page_def fetch_api_day_def day_request_def
           split: json.splits if_splits sum.splits)+

lemma paginate_well_formed:
  assumes "\<forall>r. well_formed (up r)"
  shows "list_all is_obj acc \<Longrightarrow>
         \<exists>recs msgs. snd (paginate up f dia acc pg errores calls) = Inr (recs, msgs) \<and>
                     list_all is_obj recs"
proof (induction "MAX_PAGES_PER_DAY - pg" arbitrary: pg acc calls)
  case 0
  then have ge: "MAX_PAGES_PER_DAY < Suc pg" by simp
  have wf: "well_formed (up (day_request f dia pg))" using assms by simp
  show ?case
    using ge 0(2) wf fetch_page_well_formed [of up f dia pg]
    by (subst paginate.simps) (cases "fetch_page up f dia pg"; simp)
next
  case (Suc n)
  then have lt: "\<not> MAX_PAGES_PER_DAY < Suc pg" and n: "n = MAX_PAGES_PER_DAY - Suc pg"
    by simp_all
  have wf: "well_formed (up (day_request f dia pg))" using assms by simp
  show ?case
  proof (cases "fetch_page up f dia pg")
    case (More items)
    then have "list_all is_obj (acc @ items)"
      using Suc.prems wf fetch_page_well_formed(2) [of up f dia pg items] by simp
    from Suc.hyps(1) [OF n this, of "calls @ [day_request f dia pg]"]
    show ?thesis
      using lt by (subst paginate.simps) (simp add: More)
  next
    case (Stop msgs)
    then show ?thesis using Suc.prems by (subst paginate.simps) simp
  next
    case (Raise ex)
    then show ?thesis using wf fetch_page_well_formed(1) [of up f dia pg] by simp
  qed
qed

lemma filter_nonempty_nil: "(filter (\<lambda>d. d \<noteq> []) xs = []) = (concat xs = [])"
  by (induction xs) auto

lemma normalize_result_objects:
  "list_all is_obj items \<Longrightarrow> \<exists>rows. normalize_result zones (JList items) tz_name = Inr rows"
  using normalize_items_total [of items zones tz_name]
  by (cases items) (auto simp: normalize_result_def py_or_def)

lemma days_loop_well_formed:
  assumes "\<forall>r. well_formed (up r)"
  shows "\<exists>calls' dfs' errores'.
           days_loop up zones f idx dfs errores calls = (calls', Inr (dfs', errores'))"
proof (induction idx arbitrary: dfs errores calls)
  case Nil
  then show ?case by simp
next
  case (Cons i idx)
  let ?dia = "fecha_desde f + int i"
  obtain recs msgs where day: "day_outcome up f ?dia = Inr (recs, msgs)"
    and objs: "list_all is_obj recs"
    using paginate_well_formed [OF assms, of "[]" f ?dia 1 "[]" "[]"]
    by (auto simp: day_outcome_def)
  have pg: "paginate up f ?dia [] (Suc 0) errores calls =
              (calls @ day_calls up f ?dia, Inr (recs, errores @ msgs))"
    by (simp add: paginate_day day)
  obtain df where df: "normalize_result zones (JList recs) (strip (timezone f)) = Inr df"
    using normalize_result_objects [OF objs] by blast
  show ?case
    using Cons.IH by (simp add: pg df)
qed

lemma days_loop_step:
  assumes "day_outcome up f (fecha_desde f + int i) = Inr (recs, msgs)"
    and "list_all is_obj recs"
  shows "days_loop up zones f (i # rest) dfs errores calls =
           days_loop up zones f rest
             (if recs = [] then dfs else dfs @ [day_rows up zones f (fecha_desde f + int i)])
             (errores @ msgs) (calls @ day_calls up f (fecha_desde f + int i))"
proof -
  let ?dia = "fecha_desde f + int i"
  have pg: "paginate up f ?dia [] (Suc 0) errores calls =
              (calls @ day_calls up f ?dia, Inr (recs, errores @ msgs))"
    by (simp add: paginate_day assms(1))
  obtain df where df: "normalize_items zones (strip (timezone f)) recs = Inr df"
    and len: "length df = length recs"
    using normalize_items_total [OF assms(2)] by blast
  have recs: "day_records up f ?dia = recs"
    by (simp add: day_records_def assms(1))
  show ?thesis
  proof (cases "recs = []")
    case True
    then show ?thesis by (simp add: pg)
  next
    case False
    then have res: "normalize_result zones (JList recs) (strip (timezone f)) = Inr df"
      using df by (simp add: normalize_result_def py_or_def)
    then have rows: "day_rows up zones f ?dia = df"
      by (simp add: day_rows_def recs)
    from False len have "df \<noteq> []" by auto
    then show ?thesis using False by (simp add: pg res rows)
  qed
qed

text \<open>
  Claim C9, as stated, fails: a day's failure can abort the range. When the body of
  2024-03-02 is a JSON list, \<^verbatim>\<open>payload.get\<close> raises outside the inner \<^verbatim>\<open>try\<close>; the fetch
  ends with the general error, the rows of 2024-03-01 are not stored and 2024-03-03 is
  never requested.
\<close>

theorem malformed_day_aborts_range_counterexample:
  "snd (do_fetch bad_second_day utc_only march_form) = GeneralError AttributeError \<and>
   day_request march_form 19785 1 \<notin> set (fst (do_fetch bad_second_day utc_only march_form))"
  by code_simp

text \<open>
  Claim C9, amended: a transport error, a success flag other than 1 and the page ceiling
  each end the pagination of their own day only, with the records of the day kept and one
  message appended to the errors; after a day that ended in this way (or with an empty
  page), and whose records are JSON objects, the loop goes on with the remaining days,
  whatever these hold; and when every answer of the upstream has the shape of its
  interface (a failed call, or an object whose results are a list of objects), a fetch
  with a token and a valid range requests the first page of every day of the range and
  ends with the deduplicated rows of all days and the errors of all days, in the order of
  the days. Nothing is promised for a day whose answer has another shape.
\<close>

theorem day_failure_ends_only_that_day:
  "(up (day_request f dia pg) = HttpError e \<longrightarrow>
      paginate up f dia acc pg errores calls =
        (calls @ [day_request f dia pg],
         Inr (acc, errores @ [msg_http (fmt_day dia) pg e]))) \<and>
   (up (day_request f dia pg) = Body (JObj payload) \<and>
    \<not> py_eq_int (dict_get payload ''success'') 1 \<longrightarrow>
      paginate up f dia acc pg errores calls =
        (calls @ [day_request f dia pg],
         Inr (acc, errores @ [msg_success (fmt_day dia) pg payload]))) \<and>
   (fetch_page up f dia MAX_PAGES_PER_DAY = More items \<longrightarrow>
      paginate up f dia acc MAX_PAGES_PER_DAY errores calls =
        (calls @ [day_request f dia MAX_PAGES_PER_DAY],
         Inr (acc @ items, errores @ [msg_ceiling (fmt_day dia)]))) \<and>
   (day_outcome up f (fecha_desde f + int i) = Inr (recs, msgs) \<and> list_all is_obj recs \<longrightarrow>
      days_loop up zones f (i # rest) dfs errores calls =
        days_loop up zones f rest
          (if recs = [] then dfs else dfs @ [day_rows up zones f (fecha_desde f + int i)])
          (errores @ msgs) (calls @ day_calls up f (fecha_desde f + int i))) \<and>
   ((\<forall>r. well_formed (up r)) \<and> strip (betsapi_token f) \<noteq> [] \<and>
    fecha_desde f \<le> fecha_hasta f \<longrightarrow>
      fst (do_fetch up zones f) = concat (map (day_calls up f) (range_days f)) \<and>
      (\<forall>d \<in> set (range_days f). day_request f d 1 \<in> set (fst (do_fetch up zones f))) \<and>
      snd (do_fetch up zones f) =
        (if concat (map (day_rows up zones f) (range_days f)) = []
         then NoMatches (concat (map (day_errors up f) (range_days f)))
         else Loaded (drop_duplicates [] (concat (map (day_rows up zones f) (range_days f))))
                (concat (map (day_errors up f) (range_days f)))))"
proof (intro conjI impI)
  show "paginate up f dia acc pg errores calls =
        (calls @ [day_request f dia pg],
         Inr (acc, errores @ [msg_http (fmt_day dia) pg e]))"
    if "up (day_request f dia pg) = HttpError e"
    using that
    by (subst paginate.simps)
       (simp add: fetch_page_def fetch_api_day_def day_request_def)
  show "paginate up f dia acc pg errores calls =
        (calls @ [day_request f dia pg],
         Inr (acc, errores @ [msg_success (fmt_day dia) pg payload]))"
    if "up (day_request f dia pg) = Body (JObj payload) \<and>
        \<not> py_eq_int (dict_get payload ''success'') 1"
    using that
    by (subst paginate.simps)
       (simp add: fetch_page_def fetch_api_day_def day_request_def)
  show "paginate up f dia acc MAX_PAGES_PER_DAY errores calls =
        (calls @ [day_request f dia MAX_PAGES_PER_DAY],
         Inr (acc @ items, errores @ [msg_ceiling (fmt_day dia)]))"
    if "fetch_page up f dia MAX_PAGES_PER_DAY = More items"
    using that by (subst paginate.simps) simp
  show "days_loop up zones f (i # rest) dfs errores calls =
        days_loop up zones f rest
          (if recs = [] then dfs else dfs @ [day_rows up zones f (fecha_desde f + int i)])
          (errores @ msgs) (calls @ day_calls up f (fecha_desde f + int i))"
    if "day_outcome up f (fecha_desde f + int i) = Inr (recs, msgs) \<and> list_all is_obj recs"
    using that by (intro days_loop_step) simp_all
next
  assume a: "(\<forall>r. well_formed (up r)) \<and> strip (betsapi_token f) \<noteq> [] \<and>
             fecha_desde f \<le> fecha_hasta f"
  let ?n = "nat (fecha_hasta f - fecha_desde f + 1)"
  obtain calls dfs errs where
    loop: "days_loop up zones f [0..<?n] [] [] [] = (calls, Inr (dfs, errs))"
    using days_loop_well_formed a by blast
  from days_loop_result [OF loop]
  have calls: "calls = concat (map (day_calls up f) (range_days f))"
    and dfs: "dfs = filter (\<lambda>d. d \<noteq> []) (map (day_rows up zones f) (range_days f))"
    and errs: "errs = concat (map (day_errors up f) (range_days f))"
    by (simp_all add: range_days_def comp_def)
  have cat: "concat dfs = concat (map (day_rows up zones f) (range_days f))"
    by (simp add: dfs concat_filter_nonempty)
  have empty: "(dfs = []) = (concat (map (day_rows up zones f) (range_days f)) = [])"
    unfolding dfs by (rule filter_nonempty_nil)
  have run: "do_fetch up zones f =
               (calls, if dfs = [] then NoMatches errs
                       else Loaded (drop_duplicates [] (concat dfs)) errs)"
    using a by (simp add: do_fetch_def Let_def loop)
  have first: "day_request f d 1 \<in> set calls" if "d \<in> set (range_days f)" for d
  proof -
    obtain cs where "day_calls up f d = day_request f d 1 # cs"
      using day_calls_first by blast
    then have "day_request f d 1 \<in> set (day_calls up f d)" by simp
    with that show ?thesis unfolding calls by auto
  qed
  show "fst (do_fetch up zones f) = concat (map (day_calls up f) (range_days f))"
    by (simp add: run calls)
  show "\<forall>d \<in> set (range_days f). day_request f d 1 \<in> set (fst (do_fetch up zones f))"
    using first by (simp add: run)
  show "snd (do_fetch up zones f) =
        (if concat (map (day_rows up zones f) (range_days f)) = []
         then NoMatches (concat (map (day_errors up f) (range_days f)))
         else Loaded (drop_duplicates [] (concat (map (day_rows up zones f) (range_days f))))
                (concat (map (day_errors up f) (range_days f))))"
    by (simp add: run cat empty errs)
qed

theorem day_failure_ends_only_that_day_witness:
  "two_bad_days (day_request march_form 19783 1) = HttpError ''timeout'' \<and>
   paginate two_bad_days march_form 19783 [] 1 [] [] =
     ([day_request march_form 19783 1], Inr ([], [msg_http ''2024-03-01'' 1 ''timeout''])) \<and>
   (\<forall>r. well_formed (two_bad_days r)) \<and>
   strip (betsapi_token march_form) \<noteq> [] \<and>
   fecha_desde march_form \<le> fecha_hasta march_form \<and>
   day_request march_form 19783 1 \<in> set (fst (do_fetch two_bad_days utc_only march_form)) \<and>
   day_request march_form 19784 1 \<in> set (fst (do_fetch two_bad_days utc_only march_form)) \<and>
   day_request march_form 19785 1 \<in> set (fst (do_fetch two_bad_days utc_only march_form)) \<and>
   snd (do_fetch two_bad_days utc_only march_form) =
     Loaded [[(''event_key'', JStr ''7''), (''event_date'', JStr []),
              (''event_time'', JStr []), (''first_player'', JStr ''A''),
              (''second_player'', JStr []), (''tournament_name'', JStr []),
              (''event_type_type'', JStr []), (''event_status'', JStr [])]]
       [msg_http ''2024-03-01'' 1 ''timeout'',
        msg_success ''2024-03-02'' 1
          [(''success'', JInt 0), (''error'', JStr ''AUTHORIZE_FAILED'')]]"
proof -
  note t = day_failure_ends_only_that_day
             [of two_bad_days march_form 19783 1 "''timeout''" "[]" "[]" "[]" _ _ _ _ _
                 utc_only]
  have h0: "two_bad_days (day_request march_form 19783 1) = HttpError ''timeout''"
    by code_simp
  have dd: "fmt_day 19783 = ''2024-03-01''" by code_simp
  from t h0 have p: "paginate two_bad_days march_form 19783 [] 1 [] [] =
     ([day_request march_form 19783 1], Inr ([], [msg_http ''2024-03-01'' 1 ''timeout'']))"
    by (simp add: dd)
  have h1: "\<forall>r. well_formed (two_bad_days r)"
    by (simp add: two_bad_days_def get_results_def dict_get_def)
  have h2: "strip (betsapi_token march_form) \<noteq> []"
    by (simp add: march_form_def strip_def py_space_def)
  have h3: "fecha_desde march_form \<le> fecha_hasta march_form"
    by (simp add: march_form_def)
  have e: "snd (do_fetch two_bad_days utc_only march_form) =
     Loaded [[(''event_key'', JStr ''7''), (''event_date'', JStr []),
              (''event_time'', JStr []), (''first_player'', JStr ''A''),
              (''second_player'', JStr []), (''tournament_name'', JStr []),
              (''event_type_type'', JStr []), (''event_status'', JStr [])]]
       [msg_http ''2024-03-01'' 1 ''timeout'',
        msg_success ''2024-03-02'' 1
          [(''success'', JInt 0), (''error'', JStr ''AUTHORIZE_FAILED'')]]"
    by code_simp
  have d: "range_days march_form = [19783, 19784, 19785]"
    by (simp add: range_days_def march_form_def upt_rec)
  from t h1 h2 h3
  have "\<forall>d \<in> set (range_days march_form).
          day_request march_form d 1 \<in> set (fst (do_fetch two_bad_days utc_only march_form))"
    by blast
  then have m:
    "day_request march_form 19783 1 \<in> set (fst (do_fetch two_bad_days utc_only march_form))"
    "day_request march_form 19784 1 \<in> set (fst (do_fetch two_bad_days utc_only march_form))"
    "day_request march_form 19785 1 \<in> set (fst (do_fetch two_bad_days utc_only march_form))"
    unfolding d by simp_all
  show ?thesis
    by (intro conjI h0 p h1 h2 h3 m e)
qed

subsection \<open>Records without identifier\<close>








end
